theory Spec2Isabelle
  imports Complex_Main "HOL-Library.AList"
begin

section \<open>Pix3D to TFRecord conversion: a model of create\_pix3d\_tf\_record.py\<close>

text \<open>
  Each Python function of the module that a property below is about is a HOL function
  of the same name. A call that can raise returns \<open>error + 'a\<close>, with \<open>Inl\<close> for
  the exception raised. Python text and byte strings are Isabelle strings (one \<open>char\<close> per
  code point below 256, respectively per byte). A Python float is the real number it
  denotes, and every floating-point operation rounds its exact result: to binary64 where
  Python computes, to binary32 where numpy or protobuf stores a float32. The two roundings
  are parameters of the model (\<open>round64\<close> and \<open>round32\<close> below); infinities and NaN are
  outside the model.
\<close>

subsection \<open>Exceptions and sequencing\<close>

datatype error = KeyError | IndexError | ValueError | TypeError | ZeroDivisionError
  | AttributeError | FileNotFoundError

definition and_then :: "error + 'a \<Rightarrow> ('a \<Rightarrow> error + 'b) \<Rightarrow> error + 'b" where
  "and_then r f = (case r of Inl e \<Rightarrow> Inl e | Inr x \<Rightarrow> f x)"

subsection \<open>numpy arrays\<close>

text \<open>
  An array is its shape and its elements in row-major order, as numpy stores a
  C-contiguous array; \<open>wf_array\<close> says that there are as many elements as the shape asks for.
  \<open>all_indices s\<close> lists the multi-indices of shape \<open>s\<close> in row-major order,
  \<open>ravel s idx\<close> is the flat offset of \<open>idx\<close>, and \<open>item m idx\<close> is \<^verbatim>\<open>m[idx]\<close>.
\<close>

record 'a ndarray =
  shape :: "nat list"
  data :: "'a list"

definition wf_array :: "'a ndarray \<Rightarrow> bool" where
  "wf_array m \<longleftrightarrow> length (data m) = prod_list (shape m)"

fun all_indices :: "nat list \<Rightarrow> nat list list" where
  "all_indices [] = [[]]"
| "all_indices (n # ns) = concat (map (\<lambda>i. map ((#) i) (all_indices ns)) [0..<n])"

fun ravel :: "nat list \<Rightarrow> nat list \<Rightarrow> nat" where
  "ravel (n # ns) (i # js) = i * prod_list ns + ravel ns js"
| "ravel _ _ = 0"

definition item :: "'a ndarray \<Rightarrow> nat list \<Rightarrow> 'a" where
  "item m idx = data m ! ravel (shape m) idx"

definition build :: "nat list \<Rightarrow> (nat list \<Rightarrow> 'a) \<Rightarrow> 'a ndarray" where
  "build s f = \<lparr>shape = s, data = map f (all_indices s)\<rparr>"

text \<open>
  \<^verbatim>\<open>numpy.flip(m, axis)\<close> reverses the order of the elements along one axis;
  \<^verbatim>\<open>numpy.transpose(m, axes)\<close> makes axis \<open>axes[d]\<close> of \<open>m\<close> the axis \<open>d\<close> of the result.
  Both are called by \<open>rot90\<close> only, after it has checked the axes.
\<close>

definition flip :: "'a ndarray \<Rightarrow> nat \<Rightarrow> 'a ndarray" where
  "flip m axis =
     build (shape m) (\<lambda>idx. item m (idx[axis := shape m ! axis - 1 - idx ! axis]))"

fun position :: "nat list \<Rightarrow> nat \<Rightarrow> nat" where
  "position [] d = 0"
| "position (a # as) d = (if a = d then 0 else Suc (position as d))"

definition transpose_nd :: "'a ndarray \<Rightarrow> nat list \<Rightarrow> 'a ndarray" where
  "transpose_nd m axes =
     build (map (\<lambda>a. shape m ! a) axes)
       (\<lambda>idx. item m (map (\<lambda>d. idx ! position axes d) [0..<length axes]))"

text \<open>
  \<^verbatim>\<open>numpy.rot90(m, k, axes=(ax0, ax1))\<close>, following numpy's own definition: the two
  checks of the axes (each raises ValueError), \<open>k\<close> reduced modulo 4, and one branch
  per number of quarter turns. The axes are written as the non-negative numbers the
  module passes.
\<close>

definition rot90 :: "'a ndarray \<Rightarrow> nat \<Rightarrow> nat \<Rightarrow> nat \<Rightarrow> error + 'a ndarray" where
  "rot90 m k ax0 ax1 =
     (let nd = length (shape m) in
      if ax0 = ax1 \<or> nat \<bar>int ax0 - int ax1\<bar> = nd then Inl ValueError
      else if ax0 \<ge> nd \<or> ax1 \<ge> nd then Inl ValueError
      else
        let k' = k mod 4;
            axes_list = ([0..<nd])[ax0 := ax1, ax1 := ax0]
        in if k' = 0 then Inr m
           else if k' = 2 then Inr (flip (flip m ax0) ax1)
           else if k' = 1 then Inr (transpose_nd (flip m ax1) axes_list)
           else Inr (flip (transpose_nd m axes_list) ax1))"

text \<open>\<^verbatim>\<open>voxel > 0\<close>, element by element, and \<^verbatim>\<open>numpy.argwhere\<close>: the indices of the
  true elements, in row-major order (the rows of the index array numpy returns).\<close>

definition greater0 :: "('a::{zero,ord}) ndarray \<Rightarrow> bool ndarray" where
  "greater0 m = \<lparr>shape = shape m, data = map (\<lambda>x. 0 < x) (data m)\<rparr>"

definition argwhere :: "bool ndarray \<Rightarrow> nat list list" where
  "argwhere m = filter (item m) (all_indices (shape m))"

subsection \<open>parse\_voxel\_file\<close>

text \<open>
  \<^verbatim>\<open>scipy.io.loadmat\<close> is the first argument: the dictionary of arrays it reads from a
  path, or \<open>None\<close> where it cannot read the file. The function returns the rows of
  \<open>voxel_indices\<close> and the list \<open>voxel_shape\<close>.
\<close>

definition parse_voxel_file ::
  "(string \<Rightarrow> (string \<Rightarrow> ('a::{zero,ord}) ndarray option) option) \<Rightarrow> string
     \<Rightarrow> error + (nat list list \<times> nat list)" where
  "parse_voxel_file loadmat file =
     (case loadmat file of
        None \<Rightarrow> Inl FileNotFoundError
      | Some mat \<Rightarrow>
          (case mat ''voxel'' of
             None \<Rightarrow> Inl KeyError
           | Some voxel0 \<Rightarrow>
               and_then (rot90 voxel0 3 1 2) (\<lambda>voxel.
                 let voxel_indices = argwhere (greater0 voxel);
                     voxel_shape = shape voxel
                 in Inr (voxel_indices, voxel_shape))))"

text \<open>The reorientation as the specification words it: three quarter turns about the
  second and third axes, one after the other.\<close>

definition quarter_turn :: "'a ndarray \<Rightarrow> error + 'a ndarray" where
  "quarter_turn m = rot90 m 1 1 2"

definition three_quarter_turns :: "'a ndarray \<Rightarrow> error + 'a ndarray" where
  "three_quarter_turns m =
     and_then (quarter_turn m) (\<lambda>m1. and_then (quarter_turn m1) quarter_turn)"

text \<open>Small grids and files for the examples below.\<close>

definition grid_1x1x2 :: "int ndarray" where
  "grid_1x1x2 = \<lparr>shape = [1, 1, 2], data = [0, 1]\<rparr>"

definition grid_1x2x3 :: "int ndarray" where
  "grid_1x2x3 = \<lparr>shape = [1, 2, 3], data = [0, 1, 0, 1, 1, 0]\<rparr>"

definition grid_2x2 :: "int ndarray" where
  "grid_2x2 = \<lparr>shape = [2, 2], data = [1, 0, 0, 1]\<rparr>"

definition grid_1x1x1x1 :: "int ndarray" where
  "grid_1x1x1x1 = \<lparr>shape = [1, 1, 1, 1], data = [1]\<rparr>"

definition mat_file :: "int ndarray \<Rightarrow> string \<Rightarrow> (string \<Rightarrow> int ndarray option) option" where
  "mat_file m = [''model/voxel.mat'' \<mapsto> [''voxel'' \<mapsto> m]]"

definition mat_file_without_voxel :: "string \<Rightarrow> (string \<Rightarrow> int ndarray option) option" where
  "mat_file_without_voxel = [''model/voxel.mat'' \<mapsto> [''grid'' \<mapsto> grid_1x2x3]]"

subsection \<open>Python values\<close>

text \<open>
  \<open>json\<close> is what \<^verbatim>\<open>json.load\<close> returns, the type of the fields of an annotation;
  \<open>JFloat x\<close> is the float that was read, of value \<open>x\<close>.
  \<open>pyval\<close> is what \<open>convert_to_feature\<close> is given: the same values, and byte strings,
  tuples, numpy scalars and numpy arrays.
\<close>

datatype json = JNull | JBool bool | JInt int | JFloat real | JStr string
  | JList "json list" | JDict "(string \<times> json) list"

datatype pyval = PNone | PBool bool | PInt int | PFloat real | PStr string | PBytes string
  | PList "pyval list" | PTuple "pyval list" | PDict "(string \<times> pyval) list"
  | PNpInt int | PNpFloat real | PIntArray "int ndarray" | PFloatArray "real ndarray"

primrec of_json :: "json \<Rightarrow> pyval" where
  "of_json JNull = PNone"
| "of_json (JBool b) = PBool b"
| "of_json (JInt n) = PInt n"
| "of_json (JFloat x) = PFloat x"
| "of_json (JStr s) = PStr s"
| "of_json (JList xs) = PList (map of_json xs)"
| "of_json (JDict kvs) = PDict (map (map_prod id of_json) kvs)"

subsection \<open>Encoded fields\<close>

text \<open>
  A \<^verbatim>\<open>tf.train.Feature\<close> holds an int64 list, a float list or a bytes list, or nothing.
  A feature dictionary maps a field name to what the code stores under it: a feature,
  or a value that was stored as it is.
\<close>

datatype feature = Int64List "int list" | FloatList "real list" | BytesList "string list"
  | EmptyFeature

datatype entry = Feat feature | Raw json

subsection \<open>What the module takes from Python, numpy and TensorFlow\<close>

text \<open>
  The rounding of a real number to the nearest binary64 and binary32 value,
  the builtins \<^verbatim>\<open>float\<close> and \<^verbatim>\<open>int\<close> on a string (\<open>None\<close> where they raise ValueError),
  the coercions of numpy and protobuf on values other than the plain ones written out
  below, the serialisation \<^verbatim>\<open>tf.io.serialize_tensor(tf.convert_to_tensor(value)).numpy()\<close>,
  and \<^verbatim>\<open>image_info_to_feature_dict\<close> of \<^verbatim>\<open>official.vision.data.tfrecord_lib\<close> are parameters
  of the model: every theorem holds for whatever they compute.
\<close>

record lib =
  round64 :: "real \<Rightarrow> real"
  round32 :: "real \<Rightarrow> real"
  float_of_str :: "string \<Rightarrow> real option"
  int_of_str :: "string \<Rightarrow> int option"
  asarray_int64 :: "pyval \<Rightarrow> error + int list"
  asarray_float32 :: "pyval \<Rightarrow> error + real list"
  bytes_list_of :: "pyval \<Rightarrow> error + string list"
  serialize_tensor :: "pyval \<Rightarrow> error + string"
  np_array_other :: "pyval \<Rightarrow> error + pyval"
  image_info_to_feature_dict ::
    "json \<Rightarrow> json \<Rightarrow> json \<Rightarrow> json \<Rightarrow> string \<Rightarrow> string \<Rightarrow> error + (string \<times> entry) list"

text \<open>The files of the dataset, as the three ways of reading the module uses see them.\<close>

record 'a files =
  read_bytes :: "string \<Rightarrow> string option"
  read_lines :: "string \<Rightarrow> string list option"
  read_mat :: "string \<Rightarrow> (string \<Rightarrow> 'a ndarray option) option"

subsection \<open>parse\_obj\_file\<close>

text \<open>\<^verbatim>\<open>s.split(c)\<close> for a separator of one character: the pieces between the
  occurrences of \<open>c\<close>, empty pieces included.\<close>

fun split_on :: "'a \<Rightarrow> 'a list \<Rightarrow> 'a list list" where
  "split_on c [] = [[]]"
| "split_on c (x # xs) =
     (if x = c then [] # split_on c xs
      else (case split_on c xs of [] \<Rightarrow> [[x]] | w # ws \<Rightarrow> (x # w) # ws))"

text \<open>\<^verbatim>\<open>f.split("/")[0]\<close>\<close>

definition first_group :: "string \<Rightarrow> string" where
  "first_group f = (case split_on CHR ''/'' f of [] \<Rightarrow> [] | g # _ \<Rightarrow> g)"

text \<open>The two inner loops: every piece of the line goes through \<^verbatim>\<open>float\<close>, respectively
  its first group through \<^verbatim>\<open>int\<close>, and the first failure raises ValueError.\<close>

fun parse_vertex :: "lib \<Rightarrow> string list \<Rightarrow> error + real list" where
  "parse_vertex lib [] = Inr []"
| "parse_vertex lib (v # vertex_line) =
     (case float_of_str lib v of
        None \<Rightarrow> Inl ValueError
      | Some x \<Rightarrow> and_then (parse_vertex lib vertex_line) (\<lambda>vertex. Inr (x # vertex)))"

fun parse_face :: "lib \<Rightarrow> string list \<Rightarrow> error + int list" where
  "parse_face lib [] = Inr []"
| "parse_face lib (f # face_line) =
     (case int_of_str lib (first_group f) of
        None \<Rightarrow> Inl ValueError
      | Some n \<Rightarrow> and_then (parse_face lib face_line) (\<lambda>face. Inr (n # face)))"

text \<open>The loop over the lines, with the two lists it appends to.\<close>

fun parse_obj_lines ::
  "lib \<Rightarrow> string list \<Rightarrow> real list list \<Rightarrow> int list list
     \<Rightarrow> error + (real list list \<times> int list list)" where
  "parse_obj_lines lib [] vertices faces = Inr (vertices, faces)"
| "parse_obj_lines lib (line # lines) vertices faces =
     (let line_id = take 2 line in
      and_then
        (if line_id = ''v ''
         then and_then (parse_vertex lib (split_on CHR '' '' (drop 2 line)))
                (\<lambda>vertex. Inr (vertices @ [vertex]))
         else Inr vertices)
        (\<lambda>vertices.
           and_then
             (if line_id = ''f ''
              then and_then (parse_face lib (split_on CHR '' '' (drop 2 line)))
                     (\<lambda>face. Inr (faces @ [face]))
              else Inr faces)
             (\<lambda>faces. parse_obj_lines lib lines vertices faces)))"

text \<open>
  \<^verbatim>\<open>np.array\<close> of a list of lists of numbers. Rows of one length give a two-dimensional
  array, and no rows the empty one-dimensional float array. Rows of different lengths,
  and integers beyond 64 bits, are left to numpy (\<open>np_array_other\<close>).
\<close>

definition in_int64 :: "int \<Rightarrow> bool" where
  "in_int64 n \<longleftrightarrow> - (2 ^ 63) \<le> n \<and> n < 2 ^ 63"

definition np_array_float :: "lib \<Rightarrow> real list list \<Rightarrow> error + pyval" where
  "np_array_float lib rows =
     (case rows of
        [] \<Rightarrow> Inr (PFloatArray \<lparr>shape = [0], data = []\<rparr>)
      | r # rs \<Rightarrow>
          if list_all (\<lambda>x. length x = length r) rs
          then Inr (PFloatArray \<lparr>shape = [length rows, length r], data = concat rows\<rparr>)
          else np_array_other lib (PList (map (\<lambda>row. PList (map PFloat row)) rows)))"

definition np_array_int :: "lib \<Rightarrow> int list list \<Rightarrow> error + pyval" where
  "np_array_int lib rows =
     (case rows of
        [] \<Rightarrow> Inr (PFloatArray \<lparr>shape = [0], data = []\<rparr>)
      | r # rs \<Rightarrow>
          if list_all (\<lambda>x. length x = length r) rs \<and> list_all in_int64 (concat rows)
          then Inr (PIntArray \<lparr>shape = [length rows, length r], data = concat rows\<rparr>)
          else np_array_other lib (PList (map (\<lambda>row. PList (map PInt row)) rows)))"

definition parse_obj_file ::
  "lib \<Rightarrow> (string \<Rightarrow> string list option) \<Rightarrow> string \<Rightarrow> error + (pyval \<times> pyval)" where
  "parse_obj_file lib readlines file =
     (case readlines file of
        None \<Rightarrow> Inl FileNotFoundError
      | Some lines \<Rightarrow>
          and_then (parse_obj_lines lib lines [] []) (\<lambda>(vertices, faces).
          and_then (np_array_float lib vertices) (\<lambda>vertex_array.
          and_then (np_array_int lib faces) (\<lambda>face_array.
            Inr (vertex_array, face_array)))))"

text \<open>
  The words of the specification about a mesh text: its vertex lines and face lines, the
  pieces of a line between single spaces, and the text being well formed, which is every
  piece of a vertex line being a number for \<^verbatim>\<open>float\<close> and the first group of every piece of
  a face line being a number for \<^verbatim>\<open>int\<close>.
\<close>

definition is_vertex_line :: "string \<Rightarrow> bool" where
  "is_vertex_line line \<longleftrightarrow> take 2 line = ''v ''"

definition is_face_line :: "string \<Rightarrow> bool" where
  "is_face_line line \<longleftrightarrow> take 2 line = ''f ''"

definition pieces :: "string \<Rightarrow> string list" where
  "pieces line = split_on CHR '' '' (drop 2 line)"

definition vertex_of :: "lib \<Rightarrow> string \<Rightarrow> real list" where
  "vertex_of lib line = map (\<lambda>v. the (float_of_str lib v)) (pieces line)"

definition face_of :: "lib \<Rightarrow> string \<Rightarrow> int list" where
  "face_of lib line = map (\<lambda>f. the (int_of_str lib (first_group f))) (pieces line)"

definition numeric_line :: "lib \<Rightarrow> string \<Rightarrow> bool" where
  "numeric_line lib line \<longleftrightarrow>
     (if is_vertex_line line then list_all (\<lambda>v. float_of_str lib v \<noteq> None) (pieces line)
      else if is_face_line line
        then list_all (\<lambda>f. int_of_str lib (first_group f) \<noteq> None) (pieces line)
      else True)"

definition well_formed :: "lib \<Rightarrow> string list \<Rightarrow> bool" where
  "well_formed lib lines \<longleftrightarrow> list_all (numeric_line lib) lines"


subsection \<open>convert\_to\_feature\<close>

text \<open>The chain of \<^verbatim>\<open>isinstance\<close> tests on \<open>element\<close>, in the order of the source. A
  Python \<^verbatim>\<open>bool\<close> is an \<^verbatim>\<open>int\<close>; a tuple and a dictionary reach the final \<^verbatim>\<open>else\<close>.\<close>

fun element_type :: "pyval \<Rightarrow> error + string" where
  "element_type (PBytes _) = Inr ''bytes''"
| "element_type (PInt _) = Inr ''int64''"
| "element_type (PBool _) = Inr ''int64''"
| "element_type (PNpInt _) = Inr ''int64''"
| "element_type (PFloat _) = Inr ''float''"
| "element_type (PNpFloat _) = Inr ''float''"
| "element_type (PStr _) = Inr ''str''"
| "element_type (PList _) = Inr ''2d''"
| "element_type (PIntArray _) = Inr ''ndarray''"
| "element_type (PFloatArray _) = Inr ''ndarray''"
| "element_type PNone = Inr ''none''"
| "element_type (PTuple _) = Inl ValueError"
| "element_type (PDict _) = Inl ValueError"

definition is_list :: "pyval \<Rightarrow> bool" where
  "is_list value = (case value of PList _ \<Rightarrow> True | _ \<Rightarrow> False)"

text \<open>The block under \<^verbatim>\<open>if value_type is None\<close>: \<^verbatim>\<open>value[0]\<close> of an empty list raises
  IndexError.\<close>

definition infer_value_type :: "pyval \<Rightarrow> error + string" where
  "infer_value_type value =
     and_then
       (case value of
          PList [] \<Rightarrow> Inl IndexError
        | PList (x # _) \<Rightarrow> Inr x
        | _ \<Rightarrow> Inr value)
       (\<lambda>element.
          and_then (element_type element) (\<lambda>value_type.
            Inr (if is_list value then value_type @ ''_list'' else value_type)))"

text \<open>
  What protobuf and numpy accept in each branch. A scalar for an int64 field is an
  integer of 64 bits (TypeError for another type, ValueError beyond the range). One for
  a float field is a number, stored as a float32: a float is rounded to binary32, an
  integer is first converted to a float. One for a bytes field is a byte string.
\<close>

fun proto_int64 :: "pyval \<Rightarrow> error + int" where
  "proto_int64 (PInt n) = (if in_int64 n then Inr n else Inl ValueError)"
| "proto_int64 (PNpInt n) = (if in_int64 n then Inr n else Inl ValueError)"
| "proto_int64 (PBool b) = Inr (if b then 1 else 0)"
| "proto_int64 _ = Inl TypeError"

fun proto_float :: "lib \<Rightarrow> pyval \<Rightarrow> error + real" where
  "proto_float lib (PFloat x) = Inr (round32 lib x)"
| "proto_float lib (PNpFloat x) = Inr (round32 lib x)"
| "proto_float lib (PInt n) = Inr (round32 lib (round64 lib (real_of_int n)))"
| "proto_float lib (PNpInt n) = Inr (round32 lib (round64 lib (real_of_int n)))"
| "proto_float lib (PBool b) = Inr (round32 lib (if b then 1 else 0))"
| "proto_float lib _ = Inl TypeError"

fun proto_bytes :: "pyval \<Rightarrow> error + string" where
  "proto_bytes (PBytes b) = Inr b"
| "proto_bytes _ = Inl TypeError"

text \<open>
  The three list branches. \<^verbatim>\<open>np.asarray(value)\<close> of a list of integers of 64 bits (a
  \<^verbatim>\<open>bool\<close> is 0 or 1) is an integer array, and that of a list of numbers with a float
  among them a binary64 array, into which an integer is converted as \<^verbatim>\<open>float\<close> does;
  \<^verbatim>\<open>astype(np.float32)\<close> rounds each element to binary32. A list of byte strings is taken
  as it is. Any other argument of the three branches is left to the library.
\<close>

fun small_int :: "pyval \<Rightarrow> int option" where
  "small_int (PInt n) = (if in_int64 n then Some n else None)"
| "small_int (PBool b) = Some (if b then 1 else 0)"
| "small_int _ = None"

fun is_float :: "pyval \<Rightarrow> bool" where
  "is_float (PFloat _) = True"
| "is_float _ = False"

fun as_double :: "lib \<Rightarrow> pyval \<Rightarrow> real option" where
  "as_double lib (PFloat x) = Some x"
| "as_double lib (PInt n) = Some (round64 lib (real_of_int n))"
| "as_double lib (PBool b) = Some (if b then 1 else 0)"
| "as_double lib _ = None"

fun byte_string :: "pyval \<Rightarrow> string option" where
  "byte_string (PBytes b) = Some b"
| "byte_string _ = None"

definition astype_int64 :: "lib \<Rightarrow> pyval \<Rightarrow> error + int list" where
  "astype_int64 lib value =
     (case value of
        PList xs \<Rightarrow>
          (case those (map small_int xs) of
             Some ns \<Rightarrow> Inr ns
           | None \<Rightarrow> asarray_int64 lib value)
      | _ \<Rightarrow> asarray_int64 lib value)"

definition astype_float32 :: "lib \<Rightarrow> pyval \<Rightarrow> error + real list" where
  "astype_float32 lib value =
     (case value of
        PList xs \<Rightarrow>
          (case those (map small_int xs) of
             Some ns \<Rightarrow> Inr (map (\<lambda>n. round32 lib (real_of_int n)) ns)
           | None \<Rightarrow>
               if list_ex is_float xs
               then (case those (map (as_double lib) xs) of
                       Some ds \<Rightarrow> Inr (map (round32 lib) ds)
                     | None \<Rightarrow> asarray_float32 lib value)
               else asarray_float32 lib value)
      | _ \<Rightarrow> asarray_float32 lib value)"

definition proto_bytes_list :: "lib \<Rightarrow> pyval \<Rightarrow> error + string list" where
  "proto_bytes_list lib value =
     (case value of
        PList xs \<Rightarrow>
          (case those (map byte_string xs) of
             Some bs \<Rightarrow> Inr bs
           | None \<Rightarrow> Inl TypeError)
      | _ \<Rightarrow> bytes_list_of lib value)"

text \<open>\<^verbatim>\<open>value.encode("utf-8")\<close> of a text of code points below 256: one byte below 128,
  two bytes from 128 on.\<close>

definition utf8_encode :: "string \<Rightarrow> string" where
  "utf8_encode s =
     concat (map (\<lambda>c. let n = (of_char c :: nat)
                      in if n < 128 then [c]
                         else [char_of (192 + n div 64), char_of (128 + n mod 64)]) s)"

text \<open>The second chain, on \<open>value_type\<close>.\<close>

definition encode_as :: "lib \<Rightarrow> string \<Rightarrow> pyval \<Rightarrow> error + feature" where
  "encode_as lib value_type value =
     (if value_type = ''int64'' then
        and_then (proto_int64 value) (\<lambda>n. Inr (Int64List [n]))
      else if value_type = ''int64_list'' then
        and_then (astype_int64 lib value) (\<lambda>ns. Inr (Int64List ns))
      else if value_type = ''float'' then
        and_then (proto_float lib value) (\<lambda>x. Inr (FloatList [x]))
      else if value_type = ''float_list'' then
        and_then (astype_float32 lib value) (\<lambda>xs. Inr (FloatList xs))
      else if value_type = ''bytes'' then
        and_then (proto_bytes value) (\<lambda>b. Inr (BytesList [b]))
      else if value_type = ''bytes_list'' then
        and_then (proto_bytes_list lib value) (\<lambda>bs. Inr (BytesList bs))
      else if value_type = ''str'' then
        (case value of
           PStr s \<Rightarrow> Inr (BytesList [utf8_encode s])
         | _ \<Rightarrow> Inl AttributeError)
      else if value_type = ''2d_list'' then
        and_then (serialize_tensor lib value) (\<lambda>serialized_data. Inr (BytesList [serialized_data]))
      else if value_type = ''ndarray'' then
        and_then (serialize_tensor lib value) (\<lambda>serialized_data. Inr (BytesList [serialized_data]))
      else if value_type = ''none'' then Inr EmptyFeature
      else Inl ValueError)"

definition convert_to_feature :: "lib \<Rightarrow> pyval \<Rightarrow> string option \<Rightarrow> error + feature" where
  "convert_to_feature lib value value_type =
     (case value_type of
        None \<Rightarrow> and_then (infer_value_type value) (\<lambda>value_type. encode_as lib value_type value)
      | Some value_type \<Rightarrow> encode_as lib value_type value)"

text \<open>The shapes of value the specification lists for the inference, by the type of
  the value, or of its first element when it is a list.\<close>

fun supported_element :: "pyval \<Rightarrow> bool" where
  "supported_element (PBytes _) = True"
| "supported_element (PInt _) = True"
| "supported_element (PBool _) = True"
| "supported_element (PNpInt _) = True"
| "supported_element (PFloat _) = True"
| "supported_element (PNpFloat _) = True"
| "supported_element (PList _) = True"
| "supported_element _ = False"

fun supported_scalar :: "pyval \<Rightarrow> bool" where
  "supported_scalar (PStr _) = True"
| "supported_scalar (PIntArray _) = True"
| "supported_scalar (PFloatArray _) = True"
| "supported_scalar PNone = True"
| "supported_scalar value = supported_element value"

fun supported_shape :: "pyval \<Rightarrow> bool" where
  "supported_shape (PList []) = False"
| "supported_shape (PList (x # _)) = supported_element x"
| "supported_shape value = supported_scalar value"

subsection \<open>Operations on the fields of an annotation\<close>

text \<open>
  An annotation is the dictionary \<open>generate_annotations\<close> builds from a record of the
  JSON file. Each function below is one Python operation \<open>create_tf_example\<close> applies
  to a field, with the exception it raises on a value of another type.
\<close>

definition dict_get :: "(string \<times> json) list \<Rightarrow> string \<Rightarrow> error + json" where
  "dict_get d key = (case map_of d key of None \<Rightarrow> Inl KeyError | Some v \<Rightarrow> Inr v)"

text \<open>\<^verbatim>\<open>x[i]\<close> for a constant index \<open>i\<close>\<close>

fun subscript :: "json \<Rightarrow> nat \<Rightarrow> error + json" where
  "subscript (JList xs) i = (if i < length xs then Inr (xs ! i) else Inl IndexError)"
| "subscript (JStr s) i = (if i < length s then Inr (JStr [s ! i]) else Inl IndexError)"
| "subscript (JDict _) i = Inl KeyError"
| "subscript _ i = Inl TypeError"

text \<open>\<^verbatim>\<open>os.path.join(a, b)\<close> on a POSIX system\<close>

fun path_join :: "json \<Rightarrow> json \<Rightarrow> error + string" where
  "path_join (JStr a) (JStr b) =
     Inr (if take 1 b = ''/'' then b
          else if a = [] \<or> last a = CHR ''/'' then a @ b
          else a @ ''/'' @ b)"
| "path_join _ _ = Inl TypeError"

text \<open>\<^verbatim>\<open>tf.io.gfile.GFile(path, 'rb').read()\<close>\<close>

definition gfile_read :: "'a files \<Rightarrow> string \<Rightarrow> error + string" where
  "gfile_read files path =
     (case read_bytes files path of None \<Rightarrow> Inl FileNotFoundError | Some b \<Rightarrow> Inr b)"

text \<open>\<^verbatim>\<open>sub in x\<close>: a substring of a text, an element of a list, a key of a dictionary\<close>

fun substring :: "string \<Rightarrow> string \<Rightarrow> bool" where
  "substring sub [] = (sub = [])"
| "substring sub (c # cs) = (take (length sub) (c # cs) = sub \<or> substring sub cs)"

fun contains :: "string \<Rightarrow> json \<Rightarrow> error + bool" where
  "contains sub (JStr s) = Inr (substring sub s)"
| "contains sub (JList xs) = Inr (JStr sub \<in> set xs)"
| "contains sub (JDict kvs) = Inr (sub \<in> set (map fst kvs))"
| "contains sub _ = Inl TypeError"

text \<open>
  Arithmetic. \<open>to_float\<close> is the float a number of the annotation is, or is converted to
  in an operation with a float: an integer is converted to the nearest binary64 value,
  \<^verbatim>\<open>True\<close> and \<^verbatim>\<open>False\<close> are 1.0 and 0.0. Then \<^verbatim>\<open>x / n\<close> for a constant \<open>n\<close> (of two integers Python rounds the exact
  quotient), \<^verbatim>\<open>x * y\<close> for a float \<open>y\<close>, \<^verbatim>\<open>float(x)\<close>, and \<^verbatim>\<open>y / x\<close> for a float \<open>y\<close>; each
  rounds its exact result to binary64.
\<close>

fun to_float :: "lib \<Rightarrow> json \<Rightarrow> real option" where
  "to_float lib (JInt n) = Some (round64 lib (real_of_int n))"
| "to_float lib (JFloat x) = Some x"
| "to_float lib (JBool b) = Some (if b then 1 else 0)"
| "to_float lib _ = None"

fun truediv_const :: "lib \<Rightarrow> json \<Rightarrow> nat \<Rightarrow> error + real" where
  "truediv_const lib (JInt k) n = Inr (round64 lib (real_of_int k / real n))"
| "truediv_const lib (JBool b) n = Inr (round64 lib ((if b then 1 else 0) / real n))"
| "truediv_const lib (JFloat x) n = Inr (round64 lib (x / real n))"
| "truediv_const lib _ n = Inl TypeError"

definition mul_float :: "lib \<Rightarrow> json \<Rightarrow> real \<Rightarrow> error + real" where
  "mul_float lib x y =
     (case to_float lib x of None \<Rightarrow> Inl TypeError | Some r \<Rightarrow> Inr (round64 lib (r * y)))"

definition py_float :: "lib \<Rightarrow> json \<Rightarrow> error + real" where
  "py_float lib x =
     (case x of
        JStr s \<Rightarrow> (case float_of_str lib s of None \<Rightarrow> Inl ValueError | Some r \<Rightarrow> Inr r)
      | _ \<Rightarrow> (case to_float lib x of None \<Rightarrow> Inl TypeError | Some r \<Rightarrow> Inr r))"

definition div_by :: "lib \<Rightarrow> real \<Rightarrow> json \<Rightarrow> error + real" where
  "div_by lib y x =
     (case to_float lib x of
        None \<Rightarrow> Inl TypeError
      | Some r \<Rightarrow> if r = 0 then Inl ZeroDivisionError else Inr (round64 lib (y / r)))"

text \<open>\<^verbatim>\<open>xmin, ymin, xmax, ymax = x\<close>\<close>

fun iterate :: "json \<Rightarrow> error + json list" where
  "iterate (JList xs) = Inr xs"
| "iterate (JStr s) = Inr (map (\<lambda>c. JStr [c]) s)"
| "iterate (JDict kvs) = Inr (map (\<lambda>kv. JStr (fst kv)) kvs)"
| "iterate _ = Inl TypeError"

definition unpack4 :: "json \<Rightarrow> error + (json \<times> json \<times> json \<times> json)" where
  "unpack4 x =
     and_then (iterate x) (\<lambda>xs.
       case xs of [a, b, c, d] \<Rightarrow> Inr (a, b, c, d) | _ \<Rightarrow> Inl ValueError)"

text \<open>The index array \<^verbatim>\<open>np.argwhere\<close> returns, of shape \<open>(K, ndim)\<close>, from its rows.\<close>

definition index_array :: "nat list list \<Rightarrow> nat list \<Rightarrow> pyval" where
  "index_array rows voxel_shape =
     PIntArray \<lparr>shape = [length rows, length voxel_shape], data = map int (concat rows)\<rparr>"

subsection \<open>create\_tf\_example\<close>

text \<open>
  The argument \<^verbatim>\<open>image\<close> of the source is called \<open>annotation\<close> here. The body of
  \<open>create_tf_example\<close> is cut at the comments of the source: reading the fields, then
  the image, mask, mesh, voxel, camera and bounding box annotations, each of which
  updates the feature dictionary. Inside each part the statements are in the order of the
  source, so the first exception raised is the one returned.
\<close>

definition read_fields ::
  "(string \<times> json) list \<Rightarrow> error + (json \<times> json \<times> json \<times> json \<times> json \<times> json \<times> json \<times> json)" where
  "read_fields annotation =
     and_then (dict_get annotation ''img_size'') (\<lambda>img_size0.
     and_then (subscript img_size0 0) (\<lambda>img_height.
     and_then (dict_get annotation ''img_size'') (\<lambda>img_size1.
     and_then (subscript img_size1 1) (\<lambda>img_width.
     and_then (dict_get annotation ''img'') (\<lambda>img_filename.
     and_then (dict_get annotation ''image_id'') (\<lambda>img_id.
     and_then (dict_get annotation ''pix3d_dir'') (\<lambda>pix3d_dir.
     and_then (dict_get annotation ''mask'') (\<lambda>mask_filename.
     and_then (dict_get annotation ''model'') (\<lambda>model.
     and_then (dict_get annotation ''voxel'') (\<lambda>voxel_file.
       Inr (img_height, img_width, img_filename, img_id, pix3d_dir, mask_filename, model,
            voxel_file)))))))))))"

definition image_annotation ::
  "lib \<Rightarrow> 'a files \<Rightarrow> json \<Rightarrow> json \<Rightarrow> json \<Rightarrow> json \<Rightarrow> json
     \<Rightarrow> error + (string \<times> entry) list" where
  "image_annotation lib files pix3d_dir img_height img_width img_filename img_id =
     and_then (path_join pix3d_dir img_filename) (\<lambda>img_path.
     and_then (gfile_read files img_path) (\<lambda>encoded_img.
     and_then (contains ''jpg'' img_filename) (\<lambda>jpg.
     and_then (if jpg then Inr True else contains ''jpeg'' img_filename) (\<lambda>jpg_or_jpeg.
     let img_format = (if jpg_or_jpeg then ''jpg'' else ''png'')
     in image_info_to_feature_dict lib img_height img_width img_filename img_id
          encoded_img img_format))))"

definition mask_annotation ::
  "lib \<Rightarrow> 'a files \<Rightarrow> json \<Rightarrow> json \<Rightarrow> (string \<times> entry) list
     \<Rightarrow> error + (string \<times> entry) list" where
  "mask_annotation lib files pix3d_dir mask_filename feature_dict =
     and_then (path_join pix3d_dir mask_filename) (\<lambda>mask_path.
     and_then (gfile_read files mask_path) (\<lambda>encoded_mask.
     and_then (convert_to_feature lib (PBytes encoded_mask) None) (\<lambda>mask_feature.
       Inr (AList.update ''image/object/mask'' (Feat mask_feature) feature_dict))))"

definition mesh_annotations ::
  "lib \<Rightarrow> 'a files \<Rightarrow> json \<Rightarrow> json \<Rightarrow> (string \<times> entry) list
     \<Rightarrow> error + (string \<times> entry) list" where
  "mesh_annotations lib files pix3d_dir model feature_dict =
     and_then (path_join pix3d_dir model) (\<lambda>model_path.
     and_then (parse_obj_file lib (read_lines files) model_path) (\<lambda>(model_vertices, model_faces).
     and_then (convert_to_feature lib model_vertices None) (\<lambda>vertices_feature.
     and_then (convert_to_feature lib model_faces None) (\<lambda>faces_feature.
       Inr (AList.update ''model/faces'' (Feat faces_feature)
             (AList.update ''model/vertices'' (Feat vertices_feature) feature_dict))))))"

definition voxel_annotations ::
  "lib \<Rightarrow> ('a::{zero,ord}) files \<Rightarrow> json \<Rightarrow> json \<Rightarrow> (string \<times> entry) list
     \<Rightarrow> error + (string \<times> entry) list" where
  "voxel_annotations lib files pix3d_dir voxel_file feature_dict =
     and_then (path_join pix3d_dir voxel_file) (\<lambda>voxel_path.
     and_then (parse_voxel_file (read_mat files) voxel_path) (\<lambda>(voxel_indices, voxel_shape).
     and_then (convert_to_feature lib (index_array voxel_indices voxel_shape) None)
       (\<lambda>voxel_indices_feature.
     and_then (convert_to_feature lib (PList (map (\<lambda>n. PInt (int n)) voxel_shape)) None)
       (\<lambda>voxel_shape_feature.
       Inr (AList.update ''model/voxel_shape'' (Feat voxel_shape_feature)
             (AList.update ''model/voxel_indices'' (Feat voxel_indices_feature)
               feature_dict))))))"

definition camera_annotations ::
  "lib \<Rightarrow> (string \<times> json) list \<Rightarrow> json \<Rightarrow> json \<Rightarrow> (string \<times> entry) list
     \<Rightarrow> error + (string \<times> entry) list" where
  "camera_annotations lib annotation img_height img_width feature_dict =
     and_then (dict_get annotation ''rot_mat'') (\<lambda>rot_mat.
     and_then (dict_get annotation ''trans_mat'') (\<lambda>trans_mat.
     and_then (dict_get annotation ''focal_length'') (\<lambda>focal_length.
     and_then (truediv_const lib img_width 32) (\<lambda>width_32.
     and_then (mul_float lib focal_length width_32) (\<lambda>intrinstic0.
     and_then (truediv_const lib img_width 2) (\<lambda>intrinstic1.
     and_then (truediv_const lib img_height 2) (\<lambda>intrinstic2.
     let intrinstic_mat = [intrinstic0, intrinstic1, intrinstic2] in
     and_then (convert_to_feature lib (of_json rot_mat) None) (\<lambda>rot_mat_feature.
     and_then (convert_to_feature lib (of_json trans_mat) None) (\<lambda>trans_mat_feature.
     and_then (convert_to_feature lib (PList (map PFloat intrinstic_mat)) None)
       (\<lambda>intrinstic_mat_feature.
       Inr (AList.update ''camera/intrinstic_mat'' (Feat intrinstic_mat_feature)
             (AList.update ''camera/trans_mat'' (Feat trans_mat_feature)
               (AList.update ''camera/rot_mat'' (Feat rot_mat_feature) feature_dict)))
     ))))))))))"

definition normalized_box ::
  "lib \<Rightarrow> json \<Rightarrow> json \<Rightarrow> json \<Rightarrow> error + (real \<times> real \<times> real \<times> real)" where
  "normalized_box lib bbox img_height img_width =
     and_then (unpack4 bbox) (\<lambda>(xmin, ymin, xmax, ymax).
     and_then (py_float lib xmin) (\<lambda>xmin.
     and_then (div_by lib xmin img_width) (\<lambda>xmin.
     and_then (py_float lib ymin) (\<lambda>ymin.
     and_then (div_by lib ymin img_height) (\<lambda>ymin.
     and_then (py_float lib xmax) (\<lambda>xmax.
     and_then (div_by lib xmax img_width) (\<lambda>xmax.
     and_then (py_float lib ymax) (\<lambda>ymax.
     and_then (div_by lib ymax img_height) (\<lambda>ymax.
       Inr (xmin, ymin, xmax, ymax))))))))))"

definition bounding_box_annotations ::
  "lib \<Rightarrow> (string \<times> json) list \<Rightarrow> json \<Rightarrow> json \<Rightarrow> (string \<times> entry) list
     \<Rightarrow> error + (string \<times> entry) list" where
  "bounding_box_annotations lib annotation img_height img_width feature_dict =
     and_then (dict_get annotation ''bbox'') (\<lambda>bbox.
     and_then (normalized_box lib bbox img_height img_width) (\<lambda>(xmin, ymin, xmax, ymax).
     let is_crowd = 0 in
     and_then (convert_to_feature lib (PList [PFloat xmin]) None) (\<lambda>xmin_feature.
     and_then (convert_to_feature lib (PList [PFloat ymin]) None) (\<lambda>ymin_feature.
     and_then (convert_to_feature lib (PList [PFloat xmax]) None) (\<lambda>xmax_feature.
     and_then (convert_to_feature lib (PList [PFloat ymax]) None) (\<lambda>ymax_feature.
     and_then (dict_get annotation ''category'') (\<lambda>category.
     and_then (convert_to_feature lib (PList [PInt is_crowd]) None) (\<lambda>is_crowd_feature.
       Inr (AList.update ''image/object/is_crowd'' (Feat is_crowd_feature)
             (AList.update ''image/object/class/label'' (Raw category)
               (AList.update ''image/object/bbox/ymax'' (Feat ymax_feature)
                 (AList.update ''image/object/bbox/xmax'' (Feat xmax_feature)
                   (AList.update ''image/object/bbox/ymin'' (Feat ymin_feature)
                     (AList.update ''image/object/bbox/xmin'' (Feat xmin_feature)
                       feature_dict))))))
     ))))))))"

text \<open>The feature dictionary handed to \<^verbatim>\<open>tf.train.Features\<close>.\<close>

definition create_tf_example_features ::
  "lib \<Rightarrow> ('a::{zero,ord}) files \<Rightarrow> (string \<times> json) list \<Rightarrow> error + (string \<times> entry) list" where
  "create_tf_example_features lib files annotation =
     and_then (read_fields annotation)
       (\<lambda>(img_height, img_width, img_filename, img_id, pix3d_dir, mask_filename, model,
           voxel_file).
     and_then (image_annotation lib files pix3d_dir img_height img_width img_filename img_id)
       (\<lambda>feature_dict.
     and_then (mask_annotation lib files pix3d_dir mask_filename feature_dict) (\<lambda>feature_dict.
     and_then (mesh_annotations lib files pix3d_dir model feature_dict) (\<lambda>feature_dict.
     and_then (voxel_annotations lib files pix3d_dir voxel_file feature_dict) (\<lambda>feature_dict.
     and_then (camera_annotations lib annotation img_height img_width feature_dict)
       (\<lambda>feature_dict.
     bounding_box_annotations lib annotation img_height img_width feature_dict))))))"

text \<open>
  \<^verbatim>\<open>tf.train.Example(features=tf.train.Features(feature=feature_dict))\<close>: the values of
  the map field must be \<^verbatim>\<open>Feature\<close> messages, and protobuf (the 3.x releases TensorFlow 2
  is built on) raises TypeError for any other value. The second component returned is the
  number of annotations skipped, always 0.
\<close>

fun features_of :: "(string \<times> entry) list \<Rightarrow> error + (string \<times> feature) list" where
  "features_of [] = Inr []"
| "features_of ((name, Feat f) # rest) =
     and_then (features_of rest) (\<lambda>fs. Inr ((name, f) # fs))"
| "features_of ((name, Raw v) # rest) = Inl TypeError"

definition create_tf_example ::
  "lib \<Rightarrow> ('a::{zero,ord}) files \<Rightarrow> (string \<times> json) list
     \<Rightarrow> error + ((string \<times> feature) list \<times> nat)" where
  "create_tf_example lib files annotation =
     and_then (create_tf_example_features lib files annotation) (\<lambda>feature_dict.
     and_then (features_of feature_dict) (\<lambda>example. Inr (example, 0)))"

text \<open>The entry of a field in the feature dictionary, where the dictionary is built.\<close>

definition built_field :: "string \<Rightarrow> error + (string \<times> entry) list \<Rightarrow> entry option" where
  "built_field name r = (case r of Inl e \<Rightarrow> None | Inr feature_dict \<Rightarrow> map_of feature_dict name)"

subsection \<open>Binary floating point\<close>

text \<open>
  The rounding of IEEE 754, to nearest with ties to the even significand, for a format of
  \<open>p\<close> significant bits whose least exponent of a normal number is \<open>emin\<close>:
  \<open>floor_log2 x\<close> is the exponent \<open>e\<close> with \<open>2^e \<le> x < 2^(e+1)\<close>, and a number is rounded
  to a multiple of the unit in its last place. Beyond the largest finite value of the
  format, where IEEE rounds to infinity, the function is not meant. It is the instance of
  \<open>round64\<close> and \<open>round32\<close> in the examples.
\<close>

function floor_log2 :: "real \<Rightarrow> int" where
  "floor_log2 x =
     (if x \<le> 0 then 0
      else if 2 \<le> x then floor_log2 (x / 2) + 1
      else if x < 1 then floor_log2 (x * 2) - 1
      else 0)"
  by pat_completeness auto
termination
proof (relation "measure (\<lambda>x. if 1 \<le> x then nat \<lfloor>x\<rfloor> else nat \<lceil>1 / x\<rceil> + 1)")
  show "wf (measure (\<lambda>x. if 1 \<le> x then nat \<lfloor>x\<rfloor> else nat \<lceil>1 / x\<rceil> + 1))" by simp
next
  fix x :: real
  assume "\<not> x \<le> 0" "2 \<le> x"
  then have "\<lfloor>x / 2\<rfloor> < \<lfloor>x\<rfloor>" "0 \<le> \<lfloor>x / 2\<rfloor>" by linarith+
  then show "(x / 2, x) \<in> measure (\<lambda>x. if 1 \<le> x then nat \<lfloor>x\<rfloor> else nat \<lceil>1 / x\<rceil> + 1)"
    using \<open>2 \<le> x\<close> by simp
next
  fix x :: real
  assume pos: "\<not> x \<le> 0" and "\<not> 2 \<le> x" and small: "x < 1"
  show "(x * 2, x) \<in> measure (\<lambda>x. if 1 \<le> x then nat \<lfloor>x\<rfloor> else nat \<lceil>1 / x\<rceil> + 1)"
  proof (cases "1 \<le> x * 2")
    case True
    then have "\<lfloor>x * 2\<rfloor> = 1" using small by linarith
    moreover have "1 < 1 / x" using pos small by simp
    then have "2 \<le> \<lceil>1 / x\<rceil>" by linarith
    ultimately show ?thesis using True small by simp
  next
    case False
    then have "2 < 1 / x" using pos by (simp add: field_simps)
    moreover have "1 / (x * 2) = (1 / x) / 2" by simp
    ultimately have "\<lceil>1 / (x * 2)\<rceil> < \<lceil>1 / x\<rceil>" "0 < \<lceil>1 / (x * 2)\<rceil>" by linarith+
    then show ?thesis using False small by simp
  qed
qed

declare floor_log2.simps [simp del]

definition pow2 :: "int \<Rightarrow> real" where
  "pow2 e = (if 0 \<le> e then 2 ^ nat e else 1 / 2 ^ nat (- e))"

definition round_half_even :: "real \<Rightarrow> int" where
  "round_half_even y =
     (let f = \<lfloor>y\<rfloor>; d = y - of_int f
      in if d < 1 / 2 then f else if 1 / 2 < d then f + 1 else if even f then f else f + 1)"

definition ieee_round :: "nat \<Rightarrow> int \<Rightarrow> real \<Rightarrow> real" where
  "ieee_round p emin x =
     (if x = 0 then 0
      else let e = max (floor_log2 \<bar>x\<bar>) emin;
               ulp = pow2 (e - (int p - 1))
           in of_int (round_half_even (x / ulp)) * ulp)"

definition binary64 :: "real \<Rightarrow> real" where
  "binary64 = ieee_round 53 (- 1022)"

definition binary32 :: "real \<Rightarrow> real" where
  "binary32 = ieee_round 24 (- 126)"

subsection \<open>A small dataset for the examples\<close>

text \<open>
  An instance of the library parameters: the two roundings above, and \<open>decimal\<close>, which
  reads an optional minus sign and decimal digits, with the newline that ends a line
  stripped, as \<^verbatim>\<open>int\<close> and \<^verbatim>\<open>float\<close> do on such text. An annotation with its four files
  follows, with the focal length 36.0 and with the float \<^verbatim>\<open>0.1\<close> for it.
\<close>

fun digits_value :: "string \<Rightarrow> nat \<Rightarrow> nat option" where
  "digits_value [] acc = Some acc"
| "digits_value (c # cs) acc =
     (let d = (of_char c :: nat)
      in if 48 \<le> d \<and> d \<le> 57 then digits_value cs (10 * acc + (d - 48)) else None)"

definition decimal :: "string \<Rightarrow> int option" where
  "decimal s =
     (case rev (dropWhile (\<lambda>c. c = CHR 0x0A) (rev s)) of
        [] \<Rightarrow> None
      | c # cs \<Rightarrow>
          if c = CHR ''-''
          then (if cs = [] then None else map_option (\<lambda>n. - int n) (digits_value cs 0))
          else map_option int (digits_value (c # cs) 0))"

definition example_lib :: lib where
  "example_lib =
     \<lparr>round64 = binary64,
      round32 = binary32,
      float_of_str = (\<lambda>s. map_option real_of_int (decimal s)),
      int_of_str = decimal,
      asarray_int64 = (\<lambda>v. Inl TypeError),
      asarray_float32 = (\<lambda>v. Inl TypeError),
      bytes_list_of = (\<lambda>v. Inl TypeError),
      serialize_tensor = (\<lambda>v. Inr (if is_list v then ''tensor of a list'' else ''tensor of an array'')),
      np_array_other = (\<lambda>v. Inl ValueError),
      image_info_to_feature_dict =
        (\<lambda>height width filename image_id encoded_str encoded_format.
           Inr [(''image/encoded'', Feat (BytesList [encoded_str])),
                (''image/format'', Feat (BytesList [encoded_format]))])\<rparr>"

definition text_line :: "string \<Rightarrow> string" where
  "text_line s = s @ [CHR 0x0A]"

definition chair_obj :: "string list" where
  "chair_obj =
     [text_line ''# chair'',
      text_line ''v 0 0 0'',
      text_line ''v 1 0 0'',
      text_line ''v 0 1 0'',
      text_line ''vn 0 0 1'',
      text_line ''f 1/1/1 2/2/1 3/3/1'',
      ''f 3//1 2//1 1//1'']"

definition broken_obj :: "string list" where
  "broken_obj = [text_line ''v 0 0 0'', text_line ''v 1 zero 0'', text_line ''f 1 2 1'']"

definition obj_files :: "string \<Rightarrow> string list option" where
  "obj_files = [''pix3d/model/chair/model.obj'' \<mapsto> chair_obj,
                ''pix3d/model/chair/broken.obj'' \<mapsto> broken_obj]"

definition example_files :: "int files" where
  "example_files =
     \<lparr>read_bytes = [''pix3d/img/chair/0001.png'' \<mapsto> ''image bytes'',
                    ''pix3d/mask/chair/0001.png'' \<mapsto> ''mask bytes''],
      read_lines = obj_files,
      read_mat = [''pix3d/model/chair/voxel.mat'' \<mapsto> [''voxel'' \<mapsto> grid_1x2x3]]\<rparr>"

definition pix3d_annotation :: "json \<Rightarrow> (string \<times> json) list" where
  "pix3d_annotation focal_length =
     [(''img'', JStr ''img/chair/0001.png''),
      (''category'', JInt 3),
      (''img_size'', JList [JInt 2016, JInt 1512]),
      (''mask'', JStr ''mask/chair/0001.png''),
      (''model'', JStr ''model/chair/model.obj''),
      (''voxel'', JStr ''model/chair/voxel.mat''),
      (''rot_mat'', JList [JList [JFloat 1, JFloat 0, JFloat 0],
                           JList [JFloat 0, JFloat 1, JFloat 0],
                           JList [JFloat 0, JFloat 0, JFloat 1]]),
      (''trans_mat'', JList [JFloat 0, JFloat 0, JFloat 1]),
      (''focal_length'', focal_length),
      (''bbox'', JList [JInt 0, JInt 0, JInt 756, JInt 1008]),
      (''image_id'', JInt 0),
      (''pix3d_dir'', JStr ''pix3d'')]"

definition example_annotation :: "(string \<times> json) list" where
  "example_annotation = pix3d_annotation (JFloat 36)"

definition short_focal_annotation :: "(string \<times> json) list" where
  "short_focal_annotation = pix3d_annotation (JFloat (binary64 (1 / 10)))"

section \<open>Properties\<close>

subsection \<open>The indices of an array\<close>

lemma length_concat_blocks:
  "(\<forall>x \<in> set xs. length (f x) = L) \<Longrightarrow> length (concat (map f xs)) = length xs * L"
  by (induction xs) auto

lemma nth_concat_blocks:
  "(\<forall>x \<in> set xs. length (f x) = L) \<Longrightarrow> i < length xs \<Longrightarrow> r < L \<Longrightarrow>
   concat (map f xs) ! (i * L + r) = f (xs ! i) ! r"
proof (induction xs arbitrary: i)
  case Nil
  then show ?case by simp
next
  case (Cons x xs)
  show ?case
  proof (cases i)
    case 0
    with Cons.prems show ?thesis by (simp add: nth_append)
  next
    case (Suc j)
    with Cons.prems have "concat (map f xs) ! (j * L + r) = f (xs ! j) ! r"
      by (intro Cons.IH) auto
    moreover have "length (f x) = L" using Cons.prems by simp
    ultimately show ?thesis using Suc by (simp add: nth_append add.assoc)
  qed
qed

lemma length_all_indices: "length (all_indices s) = prod_list s"
proof (induction s)
  case Nil
  show ?case by simp
next
  case (Cons n ns)
  have "length (concat (map (\<lambda>i. map ((#) i) (all_indices ns)) [0..<n]))
        = length [0..<n] * prod_list ns"
    by (rule length_concat_blocks) (simp add: Cons.IH)
  then show ?case by simp
qed

lemma set_all_indices: "set (all_indices s) = {idx. list_all2 (<) idx s}"
proof (induction s)
  case Nil
  show ?case by auto
next
  case (Cons n ns)
  show ?case
  proof (intro set_eqI iffI)
    fix idx assume "idx \<in> set (all_indices (n # ns))"
    then obtain i js where "i < n" "js \<in> set (all_indices ns)" "idx = i # js" by auto
    with Cons.IH show "idx \<in> {idx. list_all2 (<) idx (n # ns)}" by simp
  next
    fix idx assume "idx \<in> {idx. list_all2 (<) idx (n # ns)}"
    then obtain i js where "idx = i # js" "i < n" "list_all2 (<) js ns"
      by (auto simp: list_all2_Cons2)
    with Cons.IH show "idx \<in> set (all_indices (n # ns))" by auto
  qed
qed

lemma ravel_less: "list_all2 (<) idx s \<Longrightarrow> ravel s idx < prod_list s"
proof (induction s arbitrary: idx)
  case Nil
  then show ?case by simp
next
  case (Cons n ns)
  then obtain i js where idx: "idx = i # js" "i < n" "list_all2 (<) js ns"
    by (auto simp: list_all2_Cons2)
  then have r: "ravel ns js < prod_list ns" by (intro Cons.IH)
  have "i * prod_list ns + ravel ns js < Suc i * prod_list ns" using r by simp
  also have "\<dots> \<le> n * prod_list ns" using idx(2) by (intro mult_le_mono1) simp
  finally show ?case using idx by simp
qed

lemma nth_all_indices:
  "list_all2 (<) idx s \<Longrightarrow> all_indices s ! ravel s idx = idx"
proof (induction s arbitrary: idx)
  case Nil
  then show ?case by simp
next
  case (Cons n ns)
  then obtain i js where idx: "idx = i # js" "i < n" "list_all2 (<) js ns"
    by (auto simp: list_all2_Cons2)
  have r: "ravel ns js < prod_list ns" using idx(3) by (rule ravel_less)
  have "concat (map (\<lambda>i. map ((#) i) (all_indices ns)) [0..<n]) ! (i * prod_list ns + ravel ns js)
        = map ((#) ([0..<n] ! i)) (all_indices ns) ! ravel ns js"
    by (rule nth_concat_blocks) (use idx r in \<open>simp_all add: length_all_indices\<close>)
  also have "\<dots> = i # js"
    using idx r Cons.IH[OF idx(3)] by (simp add: length_all_indices)
  finally show ?case using idx by simp
qed

lemma upt_blocks: "concat (map (\<lambda>i. map (\<lambda>r. i * P + r) [0..<P]) [0..<n]) = [0..<n * P]"
proof (induction n)
  case 0
  show ?case by simp
next
  case (Suc n)
  have "map (\<lambda>r. n * P + r) [0..<P] = [n * P..<n * P + P]"
    using map_add_upt[of "n * P" P] by (simp add: add.commute)
  moreover have "[0..<n * P + P] = [0..<n * P] @ [n * P..<n * P + P]"
    by (rule upt_add_eq_append) simp
  ultimately show ?case using Suc by (simp add: add.commute)
qed

lemma map_ravel_all_indices: "map (ravel s) (all_indices s) = [0..<prod_list s]"
proof (induction s)
  case Nil
  show ?case by simp
next
  case (Cons n ns)
  have "map (ravel (n # ns)) (all_indices (n # ns))
        = concat (map (\<lambda>i. map (\<lambda>r. i * prod_list ns + r) (map (ravel ns) (all_indices ns))) [0..<n])"
    by (simp add: map_concat comp_def)
  also have "\<dots> = [0..<n * prod_list ns]"
    unfolding Cons.IH by (rule upt_blocks)
  finally show ?case by simp
qed

lemma data_as_items:
  assumes "wf_array m"
  shows "data m = map (item m) (all_indices (shape m))"
proof -
  have "map (item m) (all_indices (shape m))
        = map ((!) (data m)) (map (ravel (shape m)) (all_indices (shape m)))"
    by (simp add: item_def comp_def)
  also have "\<dots> = map ((!) (data m)) [0..<length (data m)]"
    using assms by (simp add: map_ravel_all_indices wf_array_def)
  also have "\<dots> = data m" by (rule map_nth)
  finally show ?thesis by simp
qed

lemma array_eqI:
  assumes "wf_array A" "wf_array B" "shape A = shape B"
    and "\<And>idx. list_all2 (<) idx (shape A) \<Longrightarrow> item A idx = item B idx"
  shows "A = B"
proof -
  have "map (item A) (all_indices (shape A)) = map (item B) (all_indices (shape A))"
    using assms(4) by (simp add: set_all_indices)
  then have "data A = data B"
    using data_as_items[OF assms(1)] data_as_items[OF assms(2)] assms(3) by simp
  with assms(3) show ?thesis by simp
qed

lemma shape_build [simp]: "shape (build s f) = s"
  by (simp add: build_def)

lemma wf_build [simp]: "wf_array (build s f)"
  by (simp add: build_def wf_array_def length_all_indices)

lemma item_build: "list_all2 (<) idx s \<Longrightarrow> item (build s f) idx = f idx"
  using ravel_less[of idx s] nth_all_indices[of idx s]
  by (simp add: build_def item_def length_all_indices)
subsection \<open>Row-major order is lexicographic order\<close>

lemma set_index_blocks:
  "set (concat (map (\<lambda>i. map ((#) i) X) [0..<n])) = {i # x | i x. i < n \<and> x \<in> set X}"
  by auto

lemma sorted_index_blocks:
  assumes "sorted_wrt (\<lambda>x y. (x, y) \<in> lexord {(p, q :: nat). p < q}) X"
  shows "sorted_wrt (\<lambda>x y. (x, y) \<in> lexord {(p, q). p < q})
           (concat (map (\<lambda>i. map ((#) i) X) [0..<n]))"
proof (induction n)
  case 0
  show ?case by simp
next
  case (Suc n)
  have block: "sorted_wrt (\<lambda>x y. (x, y) \<in> lexord {(p, q). p < q}) (map ((#) n) X)"
    using assms by (simp add: sorted_wrt_map)
  have cross: "\<forall>x \<in> set (concat (map (\<lambda>i. map ((#) i) X) [0..<n])).
                 \<forall>y \<in> set (map ((#) n) X). (x, y) \<in> lexord {(p, q). p < q}"
    unfolding set_index_blocks by auto
  show ?case using Suc block cross by (simp add: sorted_wrt_append)
qed

lemma sorted_all_indices:
  "sorted_wrt (\<lambda>x y. (x, y) \<in> lexord {(p, q). p < q}) (all_indices s)"
proof (induction s)
  case Nil
  show ?case by simp
next
  case (Cons n ns)
  then show ?case using sorted_index_blocks[of "all_indices ns" n] by simp
qed

subsection \<open>The rotation of a three-dimensional grid\<close>

lemma valid_index3:
  "list_all2 (<) idx [a, b, c] \<longleftrightarrow> (\<exists>i j k. idx = [i, j, k] \<and> i < a \<and> j < b \<and> k < c)"
  by (auto simp: list_all2_Cons2)

lemma upt3: "[0..<3] = [0, 1, 2]"
  by (simp add: upt_rec)

lemma item_flip2:
  assumes "shape m = [a, b, c]" "i < a" "j < b" "k < c"
  shows "item (flip m 2) [i, j, k] = item m [i, j, c - 1 - k]"
proof -
  have "list_all2 (<) [i, j, k] (shape m)" using assms by simp
  then show ?thesis using assms(1) by (simp add: flip_def item_build)
qed

lemma item_transpose021:
  assumes "shape m = [a, b, c]" "i < a" "j < c" "k < b"
  shows "item (transpose_nd m [0, 2, 1]) [i, j, k] = item m [i, k, j]"
proof -
  have "list_all2 (<) [i, j, k] (map (\<lambda>d. shape m ! d) [0, 2, 1])" using assms by simp
  then show ?thesis by (simp add: transpose_nd_def item_build upt3)
qed

lemma shape_flip [simp]: "shape (flip m axis) = shape m"
  by (simp add: flip_def)

lemma wf_flip [simp]: "wf_array (flip m axis)"
  by (simp add: flip_def)

lemma shape_transpose021: "shape m = [a, b, c] \<Longrightarrow> shape (transpose_nd m [0, 2, 1]) = [a, c, b]"
  by (simp add: transpose_nd_def)

lemma wf_transpose_nd [simp]: "wf_array (transpose_nd m axes)"
  by (simp add: transpose_nd_def)

lemma rot90_three:
  "shape m = [a, b, c] \<Longrightarrow> rot90 m 3 1 2 = Inr (flip (transpose_nd m [0, 2, 1]) 2)"
  by (simp add: rot90_def upt3)

lemma rot90_one:
  "shape m = [a, b, c] \<Longrightarrow> rot90 m 1 1 2 = Inr (transpose_nd (flip m 2) [0, 2, 1])"
  by (simp add: rot90_def upt3)

lemma item_rot90_three:
  assumes "shape m = [a, b, c]" "i < a" "j < c" "k < b"
  shows "item (flip (transpose_nd m [0, 2, 1]) 2) [i, j, k] = item m [i, b - 1 - k, j]"
proof -
  have s: "shape (transpose_nd m [0, 2, 1]) = [a, c, b]"
    using assms(1) by (rule shape_transpose021)
  have "item (flip (transpose_nd m [0, 2, 1]) 2) [i, j, k]
        = item (transpose_nd m [0, 2, 1]) [i, j, b - 1 - k]"
    using s assms by (intro item_flip2)
  also have "\<dots> = item m [i, b - 1 - k, j]"
    using assms by (intro item_transpose021) auto
  finally show ?thesis .
qed

lemma item_rot90_one:
  assumes "shape m = [a, b, c]" "i < a" "j < c" "k < b"
  shows "item (transpose_nd (flip m 2) [0, 2, 1]) [i, j, k] = item m [i, k, c - 1 - j]"
proof -
  have "item (transpose_nd (flip m 2) [0, 2, 1]) [i, j, k] = item (flip m 2) [i, k, j]"
    using assms by (intro item_transpose021[where a = a and b = b and c = c]) auto
  also have "\<dots> = item m [i, k, c - 1 - j]"
    using assms by (intro item_flip2)
  finally show ?thesis .
qed

lemma shape_quarter:
  "shape m = [a, b, c] \<Longrightarrow> shape (transpose_nd (flip m 2) [0, 2, 1]) = [a, c, b]"
  by (rule shape_transpose021) simp

lemma three_quarter_turns_eq:
  assumes "shape m = [a, b, c]"
  shows "three_quarter_turns m = rot90 m 3 1 2"
proof -
  define q where "q = (\<lambda>x :: 'a ndarray. transpose_nd (flip x 2) [0, 2, 1])"
  have q_app: "\<And>x. q x = transpose_nd (flip x 2) [0, 2, 1]"
    by (simp add: q_def)
  have s1: "shape (q m) = [a, c, b]"
    unfolding q_app[of m] using assms by (rule shape_quarter)
  have s2: "shape (q (q m)) = [a, b, c]"
    unfolding q_app[of "q m"] using s1 by (rule shape_quarter)
  have s3: "shape (q (q (q m))) = [a, c, b]"
    unfolding q_app[of "q (q m)"] using s2 by (rule shape_quarter)
  have "quarter_turn m = Inr (q m)"
    unfolding quarter_turn_def q_app[of m] using assms by (rule rot90_one)
  moreover have "quarter_turn (q m) = Inr (q (q m))"
    unfolding quarter_turn_def q_app[of "q m"] using s1 by (rule rot90_one)
  moreover have "quarter_turn (q (q m)) = Inr (q (q (q m)))"
    unfolding quarter_turn_def q_app[of "q (q m)"] using s2 by (rule rot90_one)
  ultimately have turns: "three_quarter_turns m = Inr (q (q (q m)))"
    by (simp add: three_quarter_turns_def and_then_def)
  have "q (q (q m)) = flip (transpose_nd m [0, 2, 1]) 2"
  proof (rule array_eqI)
    show "wf_array (q (q (q m)))" by (simp add: q_app)
    show "wf_array (flip (transpose_nd m [0, 2, 1]) 2)" by simp
    show "shape (q (q (q m))) = shape (flip (transpose_nd m [0, 2, 1]) 2)"
      using s3 shape_transpose021[OF assms] by simp
  next
    fix idx assume "list_all2 (<) idx (shape (q (q (q m))))"
    then obtain i j k where idx: "idx = [i, j, k]" "i < a" "j < c" "k < b"
      using s3 by (auto simp: valid_index3)
    have "item (q (q (q m))) [i, j, k] = item (q (q m)) [i, k, c - 1 - j]"
      unfolding q_app[of "q (q m)"] using s2 idx(2-4) by (rule item_rot90_one)
    also have "\<dots> = item (q m) [i, c - 1 - j, b - 1 - k]"
      unfolding q_app[of "q m"] using s1 idx by (intro item_rot90_one) auto
    also have "\<dots> = item m [i, b - 1 - k, c - 1 - (c - 1 - j)]"
      unfolding q_app[of m] using assms idx by (intro item_rot90_one) auto
    also have "c - 1 - (c - 1 - j) = j" using idx by simp
    finally have "item (q (q (q m))) [i, j, k] = item m [i, b - 1 - k, j]" .
    then show "item (q (q (q m))) idx = item (flip (transpose_nd m [0, 2, 1]) 2) idx"
      using idx item_rot90_three[OF assms idx(2-4)] by simp
  qed
  then show ?thesis using turns rot90_three[OF assms] by simp
qed

subsection \<open>parse\_voxel\_file: what it returns and when it fails\<close>

lemma item_greater0:
  assumes "wf_array m" "list_all2 (<) idx (shape m)"
  shows "item (greater0 m) idx = (0 < item m idx)"
proof -
  have "ravel (shape m) idx < length (data m)"
    using assms ravel_less[of idx "shape m"] by (simp add: wf_array_def)
  then show ?thesis by (simp add: greater0_def item_def)
qed

lemma argwhere_greater0:
  assumes "wf_array m"
  shows "argwhere (greater0 m) = filter (\<lambda>idx. 0 < item m idx) (all_indices (shape m))"
proof -
  have "filter (item (greater0 m)) (all_indices (shape m))
        = filter (\<lambda>idx. 0 < item m idx) (all_indices (shape m))"
    by (rule filter_cong) (simp_all add: set_all_indices item_greater0[OF assms])
  then show ?thesis by (simp add: argwhere_def greater0_def)
qed

lemma parse_voxel_file_rank3:
  assumes "loadmat file = Some mat" "mat ''voxel'' = Some m" "shape m = [a, b, c]"
  shows "parse_voxel_file loadmat file
         = Inr (filter (\<lambda>idx. 0 < item (flip (transpose_nd m [0, 2, 1]) 2) idx)
                  (all_indices [a, c, b]), [a, c, b])"
proof -
  have s: "shape (flip (transpose_nd m [0, 2, 1]) 2) = [a, c, b]"
    using shape_transpose021[OF assms(3)] by simp
  have "argwhere (greater0 (flip (transpose_nd m [0, 2, 1]) 2))
        = filter (\<lambda>idx. 0 < item (flip (transpose_nd m [0, 2, 1]) 2) idx) (all_indices [a, c, b])"
    using argwhere_greater0[of "flip (transpose_nd m [0, 2, 1]) 2"] s by simp
  then show ?thesis
    using assms(1,2) rot90_three[OF assms(3)] s
    by (simp add: parse_voxel_file_def and_then_def)
qed

lemma rot90_low_rank:
  "length (shape m) < 3 \<Longrightarrow> rot90 m 3 1 2 = Inl ValueError"
  by (auto simp: rot90_def Let_def)

lemma rot90_high_rank:
  "3 \<le> length (shape m) \<Longrightarrow> \<exists>r. rot90 m 3 1 2 = Inr r"
  by (auto simp: rot90_def Let_def)

text \<open>
  C2, as the code has it. For a three-dimensional array of shape \<open>(a, b, c)\<close> stored
  under the key \<^verbatim>\<open>voxel\<close>, \<open>parse_voxel_file\<close> returns as \<open>voxel_shape\<close> the three-element
  list \<open>[a, c, b]\<close>: the shape is read after the rotation, which exchanges the second and
  the third axis. It is the shape of the input exactly when \<open>b = c\<close>.
\<close>

theorem parse_voxel_file_shape:
  assumes "loadmat file = Some mat" "mat ''voxel'' = Some m" "shape m = [a, b, c]"
  shows "(\<exists>idxs. parse_voxel_file loadmat file = Inr (idxs, [a, c, b]))
         \<and> ([a, c, b] = shape m \<longleftrightarrow> b = c)"
  using parse_voxel_file_rank3[of loadmat "file" mat m a b c, OF assms] assms(3) by auto

theorem parse_voxel_file_shape_witness:
  "(\<exists>idxs. parse_voxel_file (mat_file grid_1x2x3) ''model/voxel.mat'' = Inr (idxs, [1, 3, 2]))
   \<and> ([1, 3, 2] = shape grid_1x2x3 \<longleftrightarrow> (2 :: nat) = 3)"
proof -
  have "mat_file grid_1x2x3 ''model/voxel.mat'' = Some [''voxel'' \<mapsto> grid_1x2x3]"
    by (simp add: mat_file_def)
  moreover have "[''voxel'' \<mapsto> grid_1x2x3] ''voxel'' = Some grid_1x2x3" by simp
  moreover have "shape grid_1x2x3 = [1, 2, 3]" by (simp add: grid_1x2x3_def)
  ultimately show ?thesis
    by (rule parse_voxel_file_shape[of "mat_file grid_1x2x3" "''model/voxel.mat''"
          "[''voxel'' \<mapsto> grid_1x2x3]" grid_1x2x3 1 2 3])
qed

text \<open>
  C2, as the claim states it, fails: a grid of shape \<open>(1, 1, 2)\<close> comes back with the
  shape \<open>[1, 2, 1]\<close>, which is not the shape of the input.
\<close>

theorem parse_voxel_file_shape_counterexample:
  "parse_voxel_file (mat_file grid_1x1x2) ''model/voxel.mat'' = Inr ([[0, 1, 0]], [1, 2, 1])
   \<and> [1, 2, 1] \<noteq> shape grid_1x1x2"
  by (simp add: parse_voxel_file_def mat_file_def grid_1x1x2_def rot90_def and_then_def
      flip_def transpose_nd_def build_def item_def argwhere_def greater0_def upt_rec)

text \<open>
  C3. For a three-dimensional array \<open>m\<close> of shape \<open>(a, b, c)\<close>, \<open>parse_voxel_file\<close>
  returns the coordinates at which the array turned three times by a quarter about its
  second and third axes is greater than zero: they are the indices of the turned array
  \<open>R\<close>, in row-major order, filtered by \<open>0 < R[idx]\<close>. In terms of the input, they are the
  \<open>[i, j, k]\<close> with \<open>0 < m[i, b - 1 - k, j]\<close>, each once, in increasing lexicographic order.
\<close>

theorem parse_voxel_file_coordinates:
  assumes "loadmat file = Some mat" "mat ''voxel'' = Some m" "wf_array m" "shape m = [a, b, c]"
  shows "\<exists>R idxs. three_quarter_turns m = Inr R
           \<and> parse_voxel_file loadmat file = Inr (idxs, shape R)
           \<and> idxs = filter (\<lambda>idx. 0 < item R idx) (all_indices (shape R))
           \<and> set idxs = {[i, j, k] | i j k. i < a \<and> j < c \<and> k < b \<and> 0 < item m [i, b - 1 - k, j]}
           \<and> sorted_wrt (\<lambda>x y. (x, y) \<in> lexord {(p, q). p < q}) idxs"
proof -
  define R where "R = flip (transpose_nd m [0, 2, 1]) 2"
  define idxs where "idxs = filter (\<lambda>idx. 0 < item R idx) (all_indices (shape R))"
  have s: "shape R = [a, c, b]"
    using shape_transpose021[OF assms(4)] by (simp add: R_def)
  have turns: "three_quarter_turns m = Inr R"
    using three_quarter_turns_eq[OF assms(4)] rot90_three[OF assms(4)] by (simp add: R_def)
  have parse: "parse_voxel_file loadmat file = Inr (idxs, shape R)"
    using parse_voxel_file_rank3[of loadmat "file" mat m a b c, OF assms(1,2,4)] s
    by (simp add: idxs_def R_def)
  have "set idxs = {idx. list_all2 (<) idx (shape R) \<and> 0 < item R idx}"
    unfolding idxs_def set_filter set_all_indices by simp
  also have "\<dots> = {idx. list_all2 (<) idx [a, c, b] \<and> 0 < item R idx}"
    by (simp only: s)
  also have "\<dots> = {[i, j, k] | i j k. i < a \<and> j < c \<and> k < b \<and> 0 < item m [i, b - 1 - k, j]}"
    unfolding valid_index3 R_def using item_rot90_three[OF assms(4)] by auto
  finally have coords: "set idxs
      = {[i, j, k] | i j k. i < a \<and> j < c \<and> k < b \<and> 0 < item m [i, b - 1 - k, j]}" .
  have "sorted_wrt (\<lambda>x y. (x, y) \<in> lexord {(p, q). p < q}) idxs"
    unfolding idxs_def by (rule sorted_wrt_filter) (rule sorted_all_indices)
  with turns parse coords show ?thesis using idxs_def by blast
qed

theorem parse_voxel_file_coordinates_witness:
  "\<exists>R idxs. three_quarter_turns grid_1x2x3 = Inr R
     \<and> parse_voxel_file (mat_file grid_1x2x3) ''model/voxel.mat'' = Inr (idxs, shape R)
     \<and> idxs = filter (\<lambda>idx. 0 < item R idx) (all_indices (shape R))
     \<and> set idxs = {[i, j, k] | i j k. i < 1 \<and> j < 3 \<and> k < 2 \<and> 0 < item grid_1x2x3 [i, 2 - 1 - k, j]}
     \<and> sorted_wrt (\<lambda>x y. (x, y) \<in> lexord {(p, q). p < q}) idxs"
proof -
  have "mat_file grid_1x2x3 ''model/voxel.mat'' = Some [''voxel'' \<mapsto> grid_1x2x3]"
    by (simp add: mat_file_def)
  moreover have "[''voxel'' \<mapsto> grid_1x2x3] ''voxel'' = Some grid_1x2x3" by simp
  moreover have "wf_array grid_1x2x3" by (simp add: wf_array_def grid_1x2x3_def)
  moreover have "shape grid_1x2x3 = [1, 2, 3]" by (simp add: grid_1x2x3_def)
  ultimately show ?thesis
    by (rule parse_voxel_file_coordinates[of "mat_file grid_1x2x3" "''model/voxel.mat''"
          "[''voxel'' \<mapsto> grid_1x2x3]" grid_1x2x3 1 2 3])
qed

text \<open>
  C9, as the code has it. \<open>parse_voxel_file\<close> raises KeyError when the file has no
  array under the key \<^verbatim>\<open>voxel\<close>, and ValueError (from \<^verbatim>\<open>numpy.rot90\<close>, whose axes 1 and 2
  the array must have) when the array has fewer than three dimensions. It does not look
  at the rank otherwise: an array of four or more dimensions is decoded.
\<close>

theorem parse_voxel_file_failures:
  assumes "loadmat file = Some mat"
  shows "case mat ''voxel'' of
           None \<Rightarrow> parse_voxel_file loadmat file = Inl KeyError
         | Some m \<Rightarrow>
             if length (shape m) < 3 then parse_voxel_file loadmat file = Inl ValueError
             else \<exists>r. parse_voxel_file loadmat file = Inr r"
proof (cases "mat ''voxel''")
  case None
  with assms show ?thesis by (simp add: parse_voxel_file_def)
next
  case (Some m)
  show ?thesis
  proof (cases "length (shape m) < 3")
    case True
    with assms Some rot90_low_rank[of m] show ?thesis
      by (simp add: parse_voxel_file_def and_then_def)
  next
    case False
    then obtain r where "rot90 m 3 1 2 = Inr r"
      using rot90_high_rank[of m] by auto
    with assms Some False show ?thesis
      by (simp add: parse_voxel_file_def and_then_def)
  qed
qed

theorem parse_voxel_file_failures_witness:
  "parse_voxel_file mat_file_without_voxel ''model/voxel.mat'' = Inl KeyError
   \<and> parse_voxel_file (mat_file grid_2x2) ''model/voxel.mat'' = Inl ValueError
   \<and> (\<exists>r. parse_voxel_file (mat_file grid_1x1x1x1) ''model/voxel.mat'' = Inr r)"
proof -
  have "mat_file_without_voxel ''model/voxel.mat'' = Some [''grid'' \<mapsto> grid_1x2x3]"
    by (simp add: mat_file_without_voxel_def)
  from parse_voxel_file_failures[of mat_file_without_voxel "''model/voxel.mat''"
      "[''grid'' \<mapsto> grid_1x2x3]", OF this]
  have 1: "parse_voxel_file mat_file_without_voxel ''model/voxel.mat'' = Inl KeyError"
    by simp
  have "mat_file grid_2x2 ''model/voxel.mat'' = Some [''voxel'' \<mapsto> grid_2x2]"
    by (simp add: mat_file_def)
  from parse_voxel_file_failures[of "mat_file grid_2x2" "''model/voxel.mat''"
      "[''voxel'' \<mapsto> grid_2x2]", OF this]
  have 2: "parse_voxel_file (mat_file grid_2x2) ''model/voxel.mat'' = Inl ValueError"
    by (simp add: grid_2x2_def)
  have "mat_file grid_1x1x1x1 ''model/voxel.mat'' = Some [''voxel'' \<mapsto> grid_1x1x1x1]"
    by (simp add: mat_file_def)
  from parse_voxel_file_failures[of "mat_file grid_1x1x1x1" "''model/voxel.mat''"
      "[''voxel'' \<mapsto> grid_1x1x1x1]", OF this]
  have 3: "\<exists>r. parse_voxel_file (mat_file grid_1x1x1x1) ''model/voxel.mat'' = Inr r"
    by (simp add: grid_1x1x1x1_def)
  from 1 2 3 show ?thesis by simp
qed

text \<open>
  C9, as the claim states it, fails: an array of rank four under the key \<^verbatim>\<open>voxel\<close>
  is not rejected; its four-element coordinates and shape are returned.
\<close>

theorem parse_voxel_file_rank4_counterexample:
  "length (shape grid_1x1x1x1) \<noteq> 3
   \<and> parse_voxel_file (mat_file grid_1x1x1x1) ''model/voxel.mat''
       = Inr ([[0, 0, 0, 0]], [1, 1, 1, 1])"
  by (simp add: parse_voxel_file_def mat_file_def grid_1x1x1x1_def rot90_def and_then_def
      flip_def transpose_nd_def build_def item_def argwhere_def greater0_def upt_rec)

subsection \<open>parse\_obj\_file: the lists it builds and when it fails\<close>

lemma parse_vertex_eq:
  "parse_vertex lib ts =
     (if list_all (\<lambda>v. float_of_str lib v \<noteq> None) ts
      then Inr (map (\<lambda>v. the (float_of_str lib v)) ts) else Inl ValueError)"
  by (induction ts) (auto simp: and_then_def split: option.splits)

lemma parse_face_eq:
  "parse_face lib ts =
     (if list_all (\<lambda>f. int_of_str lib (first_group f) \<noteq> None) ts
      then Inr (map (\<lambda>f. the (int_of_str lib (first_group f))) ts) else Inl ValueError)"
  by (induction ts) (auto simp: and_then_def split: option.splits)

lemma vertex_not_face: "is_vertex_line line \<Longrightarrow> \<not> is_face_line line"
  by (auto simp: is_vertex_line_def is_face_line_def)

lemma parse_obj_lines_step:
  "parse_obj_lines lib (line # lines) vs fs =
     (if \<not> numeric_line lib line then Inl ValueError
      else parse_obj_lines lib lines
             (if is_vertex_line line then vs @ [vertex_of lib line] else vs)
             (if is_face_line line then fs @ [face_of lib line] else fs))"
proof (cases "is_vertex_line line")
  case True
  then have "\<not> is_face_line line" by (rule vertex_not_face)
  with True show ?thesis
    by (simp add: and_then_def parse_vertex_eq numeric_line_def vertex_of_def pieces_def
        is_vertex_line_def is_face_line_def)
next
  case False
  then show ?thesis
    by (simp add: and_then_def parse_face_eq numeric_line_def face_of_def pieces_def
        is_vertex_line_def is_face_line_def)
qed

lemma parse_obj_lines_eq:
  "parse_obj_lines lib lines vs fs =
     (if well_formed lib lines
      then Inr (vs @ map (vertex_of lib) (filter is_vertex_line lines),
                fs @ map (face_of lib) (filter is_face_line lines))
      else Inl ValueError)"
proof (induction lines arbitrary: vs fs)
  case Nil
  show ?case by (simp add: well_formed_def)
next
  case (Cons line lines)
  show ?case
    unfolding parse_obj_lines_step Cons.IH by (simp add: well_formed_def)
qed




lemma chair_obj_well_formed: "well_formed example_lib chair_obj"
  by (simp add: well_formed_def numeric_line_def is_vertex_line_def is_face_line_def pieces_def
      chair_obj_def text_line_def example_lib_def decimal_def first_group_def)

lemma chair_obj_vertices:
  "map (vertex_of example_lib) (filter is_vertex_line chair_obj)
     = [[0, 0, 0], [1, 0, 0], [0, 1, 0]]"
  by (simp add: vertex_of_def is_vertex_line_def pieces_def chair_obj_def text_line_def
      example_lib_def decimal_def)

lemma chair_obj_faces:
  "map (face_of example_lib) (filter is_face_line chair_obj) = [[1, 2, 3], [3, 2, 1]]"
  by (simp add: face_of_def is_face_line_def pieces_def chair_obj_def text_line_def
      example_lib_def decimal_def first_group_def)


lemma chair_obj_parsed:
  "parse_obj_file example_lib obj_files ''pix3d/model/chair/model.obj''
     = Inr (PFloatArray \<lparr>shape = [3, 3], data = [0, 0, 0, 1, 0, 0, 0, 1, 0]\<rparr>,
            PIntArray \<lparr>shape = [2, 3], data = [1, 2, 3, 3, 2, 1]\<rparr>)"
  using chair_obj_well_formed
  by (simp add: parse_obj_file_def obj_files_def parse_obj_lines_eq and_then_def
      np_array_float_def np_array_int_def chair_obj_vertices chair_obj_faces in_int64_def)


text \<open>
  C8. \<open>parse_obj_file\<close> raises ValueError for every text with a vertex line one of
  whose pieces is not a number for \<^verbatim>\<open>float\<close>, or a face line one of whose pieces does not
  begin with a number for \<^verbatim>\<open>int\<close>; it returns only for a text all of whose vertex and face
  lines are made of numbers.
\<close>

theorem parse_obj_file_parse_error:
  assumes "readlines file = Some lines"
  shows "(\<not> list_all (numeric_line lib) lines
            \<longrightarrow> parse_obj_file lib readlines file = Inl ValueError)
         \<and> ((\<exists>r. parse_obj_file lib readlines file = Inr r)
            \<longrightarrow> list_all (numeric_line lib) lines)"
proof -
  have "parse_obj_file lib readlines file = Inl ValueError"
    if "\<not> list_all (numeric_line lib) lines"
    using assms that by (simp add: parse_obj_file_def parse_obj_lines_eq well_formed_def and_then_def)
  then show ?thesis by fastforce
qed

lemma broken_obj_not_numeric:
  "\<not> numeric_line example_lib (text_line ''v 1 zero 0'')"
  by (simp add: numeric_line_def is_vertex_line_def pieces_def text_line_def example_lib_def
      decimal_def)

theorem parse_obj_file_parse_error_witness:
  "\<not> list_all (numeric_line example_lib) broken_obj
   \<and> parse_obj_file example_lib obj_files ''pix3d/model/chair/broken.obj'' = Inl ValueError
   \<and> (\<exists>r. parse_obj_file example_lib obj_files ''pix3d/model/chair/model.obj'' = Inr r)
   \<and> list_all (numeric_line example_lib) chair_obj"
proof -
  have bad: "\<not> list_all (numeric_line example_lib) broken_obj"
    using broken_obj_not_numeric by (simp add: broken_obj_def)
  have rd_bad: "obj_files ''pix3d/model/chair/broken.obj'' = Some broken_obj"
    by (simp add: obj_files_def)
  have rd: "obj_files ''pix3d/model/chair/model.obj'' = Some chair_obj"
    by (simp add: obj_files_def)
  have ok: "\<exists>r. parse_obj_file example_lib obj_files ''pix3d/model/chair/model.obj'' = Inr r"
    using rd chair_obj_well_formed
    by (simp add: parse_obj_file_def parse_obj_lines_eq and_then_def np_array_float_def
        np_array_int_def chair_obj_vertices chair_obj_faces in_int64_def)
  from parse_obj_file_parse_error[of obj_files "''pix3d/model/chair/broken.obj''" broken_obj
      example_lib, OF rd_bad] bad
  have 1: "parse_obj_file example_lib obj_files ''pix3d/model/chair/broken.obj'' = Inl ValueError"
    by simp
  from parse_obj_file_parse_error[of obj_files "''pix3d/model/chair/model.obj''" chair_obj
      example_lib, OF rd] ok
  have 2: "list_all (numeric_line example_lib) chair_obj" by blast
  from bad 1 ok 2 show ?thesis by simp
qed

subsection \<open>convert\_to\_feature: the inference of the encoding\<close>

lemma those_small_int: "list_all in_int64 ns \<Longrightarrow> those (map small_int (map PInt ns)) = Some ns"
  by (induction ns) auto

lemma those_as_double: "those (map (as_double lib) (map PFloat xs)) = Some xs"
  by (induction xs) auto

lemma those_byte_string: "those (map byte_string (map PBytes bs)) = Some bs"
  by (induction bs) auto

lemma infer_list:
  "infer_value_type (PList (v # vs)) = and_then (element_type v) (\<lambda>t. Inr (t @ ''_list''))"
  by (simp add: infer_value_type_def and_then_def is_list_def)

lemma infer_scalar:
  "\<not> is_list value \<Longrightarrow> infer_value_type value = element_type value"
  by (cases "value") (auto simp: infer_value_type_def and_then_def is_list_def split: sum.splits)

lemma convert_bytes_list:
  "convert_to_feature lib (PList (map PBytes (b # bs))) None = Inr (BytesList (b # bs))"
  using those_byte_string[of "b # bs"]
  by (simp add: convert_to_feature_def infer_list and_then_def encode_as_def
      proto_bytes_list_def)

lemma convert_int64_list:
  "list_all in_int64 (n # ns) \<Longrightarrow>
   convert_to_feature lib (PList (map PInt (n # ns))) None = Inr (Int64List (n # ns))"
  using those_small_int[of "n # ns"]
  by (simp add: convert_to_feature_def infer_list and_then_def encode_as_def astype_int64_def)

lemma convert_float_list:
  "convert_to_feature lib (PList (map PFloat (x # xs))) None
     = Inr (FloatList (map (round32 lib) (x # xs)))"
  using those_as_double[of lib "x # xs"]
  by (simp add: convert_to_feature_def infer_list and_then_def encode_as_def astype_float32_def)

lemma convert_scalars:
  "convert_to_feature lib (PBytes b) None = Inr (BytesList [b])"
  "in_int64 m \<Longrightarrow> convert_to_feature lib (PInt m) None = Inr (Int64List [m])"
  "convert_to_feature lib (PFloat x) None = Inr (FloatList [round32 lib x])"
  "convert_to_feature lib (PStr s) None = Inr (BytesList [utf8_encode s])"
  "convert_to_feature lib PNone None = Inr EmptyFeature"
  by (simp_all add: convert_to_feature_def infer_scalar is_list_def and_then_def encode_as_def)

lemma convert_tensors:
  "convert_to_feature lib (PList (PList row # rows)) None
     = and_then (serialize_tensor lib (PList (PList row # rows))) (\<lambda>blob. Inr (BytesList [blob]))"
  "convert_to_feature lib (PIntArray a) None
     = and_then (serialize_tensor lib (PIntArray a)) (\<lambda>blob. Inr (BytesList [blob]))"
  "convert_to_feature lib (PFloatArray c) None
     = and_then (serialize_tensor lib (PFloatArray c)) (\<lambda>blob. Inr (BytesList [blob]))"
  by (simp_all add: convert_to_feature_def infer_list infer_scalar is_list_def and_then_def
      encode_as_def)

text \<open>
  C4. With no explicit \<open>value_type\<close>, the encoding inferred for a list depends on its
  first element only, and \<open>convert_to_feature\<close> encodes a list of byte strings as a bytes
  list, a list of integers (of 64 bits) as an int64 list, a list of floats as a float list
  of their float32 values, a byte string as a bytes list of one element, an integer as an
  int64 list of one element, a float as a float list of one element, its float32 value, a
  text as the bytes list holding its UTF-8
  encoding, a list of lists or an array as the bytes list holding the one blob that
  TensorFlow's serialisation of the whole value gives, and \<^verbatim>\<open>None\<close> as the empty feature.
\<close>

theorem convert_to_feature_inference:
  assumes "list_all in_int64 (n # ns)" and "in_int64 m"
  shows "infer_value_type (PList (v # vs)) = infer_value_type (PList [v])
    \<and> convert_to_feature lib (PList (map PBytes (b # bs))) None = Inr (BytesList (b # bs))
    \<and> convert_to_feature lib (PList (map PInt (n # ns))) None = Inr (Int64List (n # ns))
    \<and> convert_to_feature lib (PList (map PFloat (x # xs))) None
        = Inr (FloatList (map (round32 lib) (x # xs)))
    \<and> convert_to_feature lib (PBytes b) None = Inr (BytesList [b])
    \<and> convert_to_feature lib (PInt m) None = Inr (Int64List [m])
    \<and> convert_to_feature lib (PFloat x) None = Inr (FloatList [round32 lib x])
    \<and> convert_to_feature lib (PStr s) None = Inr (BytesList [utf8_encode s])
    \<and> convert_to_feature lib (PList (PList row # rows)) None
        = and_then (serialize_tensor lib (PList (PList row # rows)))
            (\<lambda>blob. Inr (BytesList [blob]))
    \<and> convert_to_feature lib (PIntArray a) None
        = and_then (serialize_tensor lib (PIntArray a)) (\<lambda>blob. Inr (BytesList [blob]))
    \<and> convert_to_feature lib (PFloatArray c) None
        = and_then (serialize_tensor lib (PFloatArray c)) (\<lambda>blob. Inr (BytesList [blob]))
    \<and> convert_to_feature lib PNone None = Inr EmptyFeature"
  using assms convert_bytes_list[where lib = lib and b = b and bs = bs]
    convert_int64_list[where lib = lib and n = n and ns = ns]
    convert_float_list[where lib = lib and x = x and xs = xs]
    convert_scalars[where lib = lib] convert_tensors[where lib = lib]
  by (simp add: infer_list)

theorem convert_to_feature_inference_witness:
  "list_all in_int64 [1, 2] \<and> in_int64 3
   \<and> infer_value_type (PList [PInt 1, PStr ''x'']) = infer_value_type (PList [PInt 1])
   \<and> convert_to_feature example_lib (PList [PBytes ''ab'', PBytes ''c'']) None
       = Inr (BytesList [''ab'', ''c''])
   \<and> convert_to_feature example_lib (PList [PInt 1, PInt 2]) None = Inr (Int64List [1, 2])
   \<and> convert_to_feature example_lib (PList [PFloat (1 / 2), PFloat 2]) None
       = Inr (FloatList [1 / 2, 2])
   \<and> convert_to_feature example_lib (PBytes ''ab'') None = Inr (BytesList [''ab''])
   \<and> convert_to_feature example_lib (PInt 3) None = Inr (Int64List [3])
   \<and> convert_to_feature example_lib (PFloat (1 / 2)) None = Inr (FloatList [1 / 2])
   \<and> convert_to_feature example_lib (PStr ''chair'') None = Inr (BytesList [''chair''])
   \<and> convert_to_feature example_lib (PList [PList [PFloat 1], PList [PFloat 0]]) None
       = Inr (BytesList [''tensor of a list''])
   \<and> convert_to_feature example_lib (PIntArray \<lparr>shape = [1, 3], data = [0, 1, 0]\<rparr>) None
       = Inr (BytesList [''tensor of an array''])
   \<and> convert_to_feature example_lib (PFloatArray \<lparr>shape = [1, 3], data = [0, 1, 0]\<rparr>) None
       = Inr (BytesList [''tensor of an array''])
   \<and> convert_to_feature example_lib PNone None = Inr EmptyFeature"
proof -
  have h1: "list_all in_int64 [1, 2]" by (simp add: in_int64_def)
  have h2: "in_int64 3" by (simp add: in_int64_def)
  show ?thesis
    using h1 h2
      convert_to_feature_inference[OF h1 h2, where v = "PInt 1" and vs = "[PStr ''x'']"
        and lib = example_lib and b = "''ab''" and bs = "[''c'']" and x = "1 / 2" and xs = "[2]"
        and s = "''chair''" and row = "[PFloat 1]" and rows = "[PList [PFloat 0]]"
        and a = "\<lparr>shape = [1, 3], data = [0, 1, 0]\<rparr>"
        and c = "\<lparr>shape = [1, 3], data = [0, 1, 0]\<rparr>"]
    by (simp add: and_then_def example_lib_def is_list_def utf8_encode_def binary32_def
        ieee_round_def floor_log2.simps pow2_def round_half_even_def Let_def)
qed

text \<open>
  C5. A value of none of the supported shapes (a value that is not a list and is neither
  a byte string, a number, a text, an array nor \<^verbatim>\<open>None\<close>; a list whose first element is
  neither a byte string, a number nor a list) is never encoded: \<open>convert_to_feature\<close>
  raises ValueError, and for the empty list IndexError.
\<close>

theorem convert_to_feature_unsupported:
  assumes "\<not> supported_shape value"
  shows "convert_to_feature lib value None
         = Inl (if value = PList [] then IndexError else ValueError)"
proof (cases "value")
  case (PList vs)
  show ?thesis
  proof (cases vs)
    case Nil
    with PList show ?thesis
      by (simp add: convert_to_feature_def infer_value_type_def and_then_def)
  next
    case (Cons v ws)
    with PList assms show ?thesis
      by (cases v)
        (simp_all add: convert_to_feature_def infer_list and_then_def encode_as_def)
  qed
qed (use assms in \<open>simp_all add: convert_to_feature_def infer_scalar is_list_def and_then_def\<close>)

theorem convert_to_feature_unsupported_witness:
  "\<not> supported_shape (PTuple [PInt 1, PInt 2])
   \<and> convert_to_feature example_lib (PTuple [PInt 1, PInt 2]) None = Inl ValueError
   \<and> \<not> supported_shape (PList [PStr ''a'', PStr ''b''])
   \<and> convert_to_feature example_lib (PList [PStr ''a'', PStr ''b'']) None = Inl ValueError
   \<and> \<not> supported_shape (PList [PDict [(''k'', PInt 1)]])
   \<and> convert_to_feature example_lib (PList [PDict [(''k'', PInt 1)]]) None = Inl ValueError"
proof -
  have 1: "\<not> supported_shape (PTuple [PInt 1, PInt 2])" by simp
  have 2: "\<not> supported_shape (PList [PStr ''a'', PStr ''b''])" by simp
  have 3: "\<not> supported_shape (PList [PDict [(''k'', PInt 1)]])" by simp
  show ?thesis
    using 1 2 3 convert_to_feature_unsupported[OF 1, of example_lib]
      convert_to_feature_unsupported[OF 2, of example_lib]
      convert_to_feature_unsupported[OF 3, of example_lib]
    by simp
qed

text \<open>
  C6, as the code has it. With no explicit \<open>value_type\<close>, \<open>convert_to_feature\<close> of the
  empty list raises IndexError, from reading the first element, and gives no field: the
  outcome is the same for every library and on every call.
\<close>

theorem convert_to_feature_empty_list:
  "convert_to_feature lib (PList []) None = Inl IndexError"
  by (simp add: convert_to_feature_def infer_value_type_def and_then_def)

text \<open>
  C6, as the claim states it, fails: the empty list does not resolve to an encoded field.
\<close>

theorem convert_to_feature_empty_list_counterexample:
  "convert_to_feature example_lib (PList []) None = Inl IndexError"
  by (simp add: convert_to_feature_def infer_value_type_def and_then_def)

subsection \<open>create\_tf\_example: the camera intrinsics and the class label\<close>

lemma and_then_Inr: "and_then r f = Inr y \<longleftrightarrow> (\<exists>x. r = Inr x \<and> f x = Inr y)"
  by (cases r) (auto simp: and_then_def)

lemma dict_get_Inr: "dict_get d key = Inr v \<longleftrightarrow> map_of d key = Some v"
  by (auto simp: dict_get_def split: option.splits)

lemma mul_float_Inr:
  "mul_float lib x z = Inr y \<longleftrightarrow> (\<exists>r. to_float lib x = Some r \<and> y = round64 lib (r * z))"
  by (auto simp: mul_float_def split: option.splits)

lemma convert_float_triple:
  "convert_to_feature lib (PList (map PFloat [x, y, z])) None
     = Inr (FloatList (map (round32 lib) [x, y, z]))"
  by (rule convert_float_list)

lemma read_fields_size:
  assumes "read_fields annotation
           = Inr (img_height, img_width, img_filename, img_id, pix3d_dir, mask_filename, model,
                  voxel_file)"
  shows "\<exists>img_size. map_of annotation ''img_size'' = Some img_size
           \<and> subscript img_size 0 = Inr img_height \<and> subscript img_size 1 = Inr img_width"
  using assms by (auto simp: read_fields_def and_then_Inr dict_get_Inr)

lemma camera_annotations_intrinsic:
  assumes "camera_annotations lib annotation img_height img_width feature_dict = Inr feature_dict'"
  shows "\<exists>focal_length f w32 w2 h2.
           map_of annotation ''focal_length'' = Some focal_length
           \<and> to_float lib focal_length = Some f
           \<and> truediv_const lib img_width 32 = Inr w32
           \<and> truediv_const lib img_width 2 = Inr w2
           \<and> truediv_const lib img_height 2 = Inr h2
           \<and> map_of feature_dict' ''camera/intrinstic_mat''
               = Some (Feat (FloatList [round32 lib (round64 lib (f * w32)), round32 lib w2,
                                        round32 lib h2]))"
proof -
  from assms obtain focal_length w32 i0 w2 h2 feature where
    focal: "map_of annotation ''focal_length'' = Some focal_length"
    and w32: "truediv_const lib img_width 32 = Inr w32"
    and i0: "mul_float lib focal_length w32 = Inr i0"
    and w2: "truediv_const lib img_width 2 = Inr w2"
    and h2: "truediv_const lib img_height 2 = Inr h2"
    and feature: "convert_to_feature lib (PList (map PFloat [i0, w2, h2])) None = Inr feature"
    and dict: "map_of feature_dict' ''camera/intrinstic_mat'' = Some (Feat feature)"
    by (auto simp: camera_annotations_def Let_def and_then_Inr dict_get_Inr update_conv')
  from i0 obtain f where f: "to_float lib focal_length = Some f" "i0 = round64 lib (f * w32)"
    by (auto simp: mul_float_Inr)
  have "feature = FloatList (map (round32 lib) [i0, w2, h2])"
    using feature unfolding convert_float_triple by simp
  with focal w32 w2 h2 f dict show ?thesis by simp
qed

lemma bounding_box_annotations_label:
  assumes "bounding_box_annotations lib annotation img_height img_width feature_dict
           = Inr feature_dict'"
  shows "\<exists>category. map_of annotation ''category'' = Some category
           \<and> map_of feature_dict' ''image/object/class/label'' = Some (Raw category)
           \<and> map_of feature_dict' ''camera/intrinstic_mat''
               = map_of feature_dict ''camera/intrinstic_mat''"
  using assms
  by (auto simp: bounding_box_annotations_def Let_def and_then_Inr dict_get_Inr update_conv')

lemma features_of_raw:
  "map_of feature_dict name = Some (Raw v) \<Longrightarrow> features_of feature_dict = Inl TypeError"
proof (induction feature_dict rule: features_of.induct)
  case 1
  then show ?case by simp
next
  case (2 name' f rest)
  then show ?case by (auto simp: and_then_def split: if_splits)
next
  case (3 name' v' rest)
  show ?case by simp
qed

lemma create_tf_example_features_stages:
  assumes "create_tf_example_features lib files annotation = Inr feature_dict"
  shows "\<exists>img_height img_width img_filename img_id pix3d_dir mask_filename model voxel_file
            fd4 fd5.
           read_fields annotation
             = Inr (img_height, img_width, img_filename, img_id, pix3d_dir, mask_filename, model,
                    voxel_file)
           \<and> camera_annotations lib annotation img_height img_width fd4 = Inr fd5
           \<and> bounding_box_annotations lib annotation img_height img_width fd5 = Inr feature_dict"
  using assms by (fastforce simp: create_tf_example_features_def and_then_Inr)

lemma example_fields:
  "read_fields (pix3d_annotation focal_length)
     = Inr (JInt 2016, JInt 1512, JStr ''img/chair/0001.png'', JInt 0, JStr ''pix3d'',
            JStr ''mask/chair/0001.png'', JStr ''model/chair/model.obj'',
            JStr ''model/chair/voxel.mat'')"
  by (simp add: read_fields_def pix3d_annotation_def dict_get_def and_then_def)

lemma example_image:
  "image_annotation example_lib example_files (JStr ''pix3d'') (JInt 2016) (JInt 1512)
     (JStr ''img/chair/0001.png'') (JInt 0)
   = Inr [(''image/encoded'', Feat (BytesList [''image bytes''])),
          (''image/format'', Feat (BytesList [''png'']))]"
  by (simp add: image_annotation_def example_lib_def example_files_def gfile_read_def
      and_then_def)

lemma example_mask:
  "mask_annotation example_lib example_files (JStr ''pix3d'') (JStr ''mask/chair/0001.png'') fd
   = Inr (AList.update ''image/object/mask'' (Feat (BytesList [''mask bytes''])) fd)"
  by (simp add: mask_annotation_def example_files_def gfile_read_def and_then_def
      convert_scalars)

lemma example_mesh:
  "mesh_annotations example_lib example_files (JStr ''pix3d'') (JStr ''model/chair/model.obj'') fd
   = Inr (AList.update ''model/faces'' (Feat (BytesList [''tensor of an array'']))
           (AList.update ''model/vertices'' (Feat (BytesList [''tensor of an array''])) fd))"
proof -
  have "read_lines example_files = obj_files" by (simp add: example_files_def)
  moreover have "serialize_tensor example_lib (PFloatArray a) = Inr ''tensor of an array''"
    and "serialize_tensor example_lib (PIntArray b) = Inr ''tensor of an array''" for a b
    by (simp_all add: example_lib_def is_list_def)
  ultimately show ?thesis
    using chair_obj_parsed
    by (simp add: mesh_annotations_def and_then_def convert_tensors)
qed

lemma example_voxel:
  "voxel_annotations example_lib example_files (JStr ''pix3d'') (JStr ''model/chair/voxel.mat'') fd
   = Inr (AList.update ''model/voxel_shape'' (Feat (Int64List [1, 3, 2]))
           (AList.update ''model/voxel_indices'' (Feat (BytesList [''tensor of an array''])) fd))"
proof -
  have "parse_voxel_file (read_mat example_files) ''pix3d/model/chair/voxel.mat''
        = Inr ([[0, 0, 0], [0, 1, 0], [0, 1, 1]], [1, 3, 2])"
    by (simp add: example_files_def parse_voxel_file_def grid_1x2x3_def rot90_def and_then_def
        flip_def transpose_nd_def build_def item_def argwhere_def greater0_def upt_rec)
  moreover have "convert_to_feature example_lib (PList (map PInt [1, 3, 2])) None
                 = Inr (Int64List [1, 3, 2])"
    by (rule convert_int64_list) (simp add: in_int64_def)
  ultimately show ?thesis
    by (simp add: voxel_annotations_def and_then_def index_array_def convert_tensors
        example_lib_def is_list_def)
qed

lemma binary64_values:
  "binary64 (189 / 4) = 189 / 4" "binary64 756 = 756" "binary64 1008 = 1008"
  "binary64 1701 = 1701" "binary64 0 = 0" "binary64 1512 = 1512" "binary64 2016 = 2016"
  "binary64 (1 / 2) = 1 / 2"
  "binary64 (1 / 10) = 3602879701896397 / 36028797018963968"
  "binary64 (680944263658419033 / 144115188075855872) = 5319877059831399 / 1125899906842624"
  by (simp_all add: binary64_def ieee_round_def floor_log2.simps pow2_def round_half_even_def
      Let_def)

lemma binary32_values:
  "binary32 0 = 0" "binary32 1 = 1" "binary32 (1 / 2) = 1 / 2" "binary32 1701 = 1701"
  "binary32 756 = 756" "binary32 1008 = 1008"
  "binary32 (5319877059831399 / 1125899906842624) = 9909043 / 2097152"
  by (simp_all add: binary32_def ieee_round_def floor_log2.simps pow2_def round_half_even_def
      Let_def)

lemma example_rounding: "round64 example_lib = binary64" "round32 example_lib = binary32"
  by (simp_all add: example_lib_def)

lemma example_sizes:
  "truediv_const example_lib (JInt 1512) 32 = Inr (189 / 4)"
  "truediv_const example_lib (JInt 1512) 2 = Inr 756"
  "truediv_const example_lib (JInt 2016) 2 = Inr 1008"
  by (simp_all add: example_rounding binary64_values)

lemma example_focal:
  "mul_float example_lib (JFloat 36) (189 / 4) = Inr 1701"
  "mul_float example_lib (JFloat (binary64 (1 / 10))) (189 / 4)
     = Inr (5319877059831399 / 1125899906842624)"
  by (simp_all add: mul_float_def example_rounding binary64_values)

lemma example_floats:
  "convert_to_feature example_lib (PList [PFloat 1701, PFloat 756, PFloat 1008]) None
     = Inr (FloatList [1701, 756, 1008])"
  "convert_to_feature example_lib
     (PList [PFloat (5319877059831399 / 1125899906842624), PFloat 756, PFloat 1008]) None
     = Inr (FloatList [9909043 / 2097152, 756, 1008])"
  "convert_to_feature example_lib (PList [PFloat 0, PFloat 0, PFloat 1]) None
     = Inr (FloatList [0, 0, 1])"
  using convert_float_list[of example_lib 1701 "[756, 1008]"]
    convert_float_list[of example_lib "5319877059831399 / 1125899906842624" "[756, 1008]"]
    convert_float_list[of example_lib 0 "[0, 1]"]
  by (simp_all add: example_rounding binary32_values)

lemma example_rot_mat:
  "convert_to_feature example_lib
     (PList [PList [PFloat 1, PFloat 0, PFloat 0], PList [PFloat 0, PFloat 1, PFloat 0],
             PList [PFloat 0, PFloat 0, PFloat 1]]) None
   = Inr (BytesList [''tensor of a list''])"
  by (simp add: convert_tensors and_then_def example_lib_def is_list_def)

lemma example_camera:
  "camera_annotations example_lib example_annotation (JInt 2016) (JInt 1512) fd
   = Inr (AList.update ''camera/intrinstic_mat'' (Feat (FloatList [1701, 756, 1008]))
           (AList.update ''camera/trans_mat'' (Feat (FloatList [0, 0, 1]))
             (AList.update ''camera/rot_mat'' (Feat (BytesList [''tensor of a list''])) fd)))"
  using example_focal(1)
  by (simp add: camera_annotations_def example_annotation_def pix3d_annotation_def dict_get_def
      and_then_def example_rounding binary64_values example_floats example_rot_mat)

lemma short_focal_camera:
  "camera_annotations example_lib short_focal_annotation (JInt 2016) (JInt 1512) fd
   = Inr (AList.update ''camera/intrinstic_mat''
            (Feat (FloatList [9909043 / 2097152, 756, 1008]))
           (AList.update ''camera/trans_mat'' (Feat (FloatList [0, 0, 1]))
             (AList.update ''camera/rot_mat'' (Feat (BytesList [''tensor of a list''])) fd)))"
  using example_focal(2)
  by (simp add: camera_annotations_def short_focal_annotation_def pix3d_annotation_def
      dict_get_def and_then_def example_rounding binary64_values example_floats
      example_rot_mat)

lemma example_box:
  "bounding_box_annotations example_lib (pix3d_annotation focal_length) (JInt 2016) (JInt 1512) fd
   = Inr (AList.update ''image/object/is_crowd'' (Feat (Int64List [0]))
           (AList.update ''image/object/class/label'' (Raw (JInt 3))
             (AList.update ''image/object/bbox/ymax'' (Feat (FloatList [1 / 2]))
               (AList.update ''image/object/bbox/xmax'' (Feat (FloatList [1 / 2]))
                 (AList.update ''image/object/bbox/ymin'' (Feat (FloatList [0]))
                   (AList.update ''image/object/bbox/xmin'' (Feat (FloatList [0]))
                     fd))))))"
proof -
  have box: "normalized_box example_lib (JList [JInt 0, JInt 0, JInt 756, JInt 1008])
          (JInt 2016) (JInt 1512) = Inr (0, 0, 1 / 2, 1 / 2)"
    by (simp add: normalized_box_def unpack4_def py_float_def div_by_def and_then_def
        example_rounding binary64_values)
  have floats: "convert_to_feature example_lib (PList [PFloat x]) None
                = Inr (FloatList [binary32 x])"
    for x using convert_float_list[of example_lib x "[]"] by (simp add: example_rounding)
  have crowd: "convert_to_feature example_lib (PList [PInt 0]) None = Inr (Int64List [0])"
    using convert_int64_list[of 0 "[]" example_lib] by (simp add: in_int64_def)
  show ?thesis
    using box
    by (simp add: bounding_box_annotations_def pix3d_annotation_def dict_get_def and_then_def
        floats crowd binary32_values)
qed

lemma example_features:
  "create_tf_example_features example_lib example_files example_annotation
   = Inr [(''image/encoded'', Feat (BytesList [''image bytes''])),
          (''image/format'', Feat (BytesList [''png''])),
          (''image/object/mask'', Feat (BytesList [''mask bytes''])),
          (''model/vertices'', Feat (BytesList [''tensor of an array''])),
          (''model/faces'', Feat (BytesList [''tensor of an array''])),
          (''model/voxel_indices'', Feat (BytesList [''tensor of an array''])),
          (''model/voxel_shape'', Feat (Int64List [1, 3, 2])),
          (''camera/rot_mat'', Feat (BytesList [''tensor of a list''])),
          (''camera/trans_mat'', Feat (FloatList [0, 0, 1])),
          (''camera/intrinstic_mat'', Feat (FloatList [1701, 756, 1008])),
          (''image/object/bbox/xmin'', Feat (FloatList [0])),
          (''image/object/bbox/ymin'', Feat (FloatList [0])),
          (''image/object/bbox/xmax'', Feat (FloatList [1 / 2])),
          (''image/object/bbox/ymax'', Feat (FloatList [1 / 2])),
          (''image/object/class/label'', Raw (JInt 3)),
          (''image/object/is_crowd'', Feat (Int64List [0]))]"
proof -
  have "read_fields example_annotation
     = Inr (JInt 2016, JInt 1512, JStr ''img/chair/0001.png'', JInt 0, JStr ''pix3d'',
            JStr ''mask/chair/0001.png'', JStr ''model/chair/model.obj'',
            JStr ''model/chair/voxel.mat'')"
    unfolding example_annotation_def by (rule example_fields)
  moreover have "bounding_box_annotations example_lib example_annotation (JInt 2016) (JInt 1512) fd
   = Inr (AList.update ''image/object/is_crowd'' (Feat (Int64List [0]))
           (AList.update ''image/object/class/label'' (Raw (JInt 3))
             (AList.update ''image/object/bbox/ymax'' (Feat (FloatList [1 / 2]))
               (AList.update ''image/object/bbox/xmax'' (Feat (FloatList [1 / 2]))
                 (AList.update ''image/object/bbox/ymin'' (Feat (FloatList [0]))
                   (AList.update ''image/object/bbox/xmin'' (Feat (FloatList [0]))
                     fd))))))" for fd
    unfolding example_annotation_def by (rule example_box)
  ultimately show ?thesis
    by (simp add: create_tf_example_features_def example_image example_mask example_mesh
        example_voxel example_camera and_then_def)
qed

lemma short_focal_features:
  "create_tf_example_features example_lib example_files short_focal_annotation
   = Inr [(''image/encoded'', Feat (BytesList [''image bytes''])),
          (''image/format'', Feat (BytesList [''png''])),
          (''image/object/mask'', Feat (BytesList [''mask bytes''])),
          (''model/vertices'', Feat (BytesList [''tensor of an array''])),
          (''model/faces'', Feat (BytesList [''tensor of an array''])),
          (''model/voxel_indices'', Feat (BytesList [''tensor of an array''])),
          (''model/voxel_shape'', Feat (Int64List [1, 3, 2])),
          (''camera/rot_mat'', Feat (BytesList [''tensor of a list''])),
          (''camera/trans_mat'', Feat (FloatList [0, 0, 1])),
          (''camera/intrinstic_mat'', Feat (FloatList [9909043 / 2097152, 756, 1008])),
          (''image/object/bbox/xmin'', Feat (FloatList [0])),
          (''image/object/bbox/ymin'', Feat (FloatList [0])),
          (''image/object/bbox/xmax'', Feat (FloatList [1 / 2])),
          (''image/object/bbox/ymax'', Feat (FloatList [1 / 2])),
          (''image/object/class/label'', Raw (JInt 3)),
          (''image/object/is_crowd'', Feat (Int64List [0]))]"
proof -
  have "read_fields short_focal_annotation
     = Inr (JInt 2016, JInt 1512, JStr ''img/chair/0001.png'', JInt 0, JStr ''pix3d'',
            JStr ''mask/chair/0001.png'', JStr ''model/chair/model.obj'',
            JStr ''model/chair/voxel.mat'')"
    unfolding short_focal_annotation_def by (rule example_fields)
  moreover have "bounding_box_annotations example_lib short_focal_annotation (JInt 2016)
     (JInt 1512) fd
   = Inr (AList.update ''image/object/is_crowd'' (Feat (Int64List [0]))
           (AList.update ''image/object/class/label'' (Raw (JInt 3))
             (AList.update ''image/object/bbox/ymax'' (Feat (FloatList [1 / 2]))
               (AList.update ''image/object/bbox/xmax'' (Feat (FloatList [1 / 2]))
                 (AList.update ''image/object/bbox/ymin'' (Feat (FloatList [0]))
                   (AList.update ''image/object/bbox/xmin'' (Feat (FloatList [0]))
                     fd))))))" for fd
    unfolding short_focal_annotation_def by (rule example_box)
  ultimately show ?thesis
    by (simp add: create_tf_example_features_def example_image example_mask example_mesh
        example_voxel short_focal_camera and_then_def)
qed

text \<open>
  C10, as the code has it. Whenever \<open>create_tf_example\<close> builds its feature dictionary,
  the focal length \<open>f\<close> of the annotation is a number, and so are the width \<open>W\<close> (the second
  element of \<^verbatim>\<open>img_size\<close>) and the height \<open>H\<close> (its first element); the field
  \<^verbatim>\<open>camera/intrinstic_mat\<close> of the dictionary is the float32 list of three elements that
  holds the binary32 roundings of the floats \<^verbatim>\<open>f * (W/32)\<close>, \<^verbatim>\<open>W/2\<close> and \<^verbatim>\<open>H/2\<close> Python
  computes, each operation rounding to binary64. For \<open>W = 1512\<close>, \<open>H = 2016\<close> and
  \<open>f = 36.0\<close> it is \<open>[1701, 756, 1008]\<close>, as the example after the theorem shows.
\<close>

theorem create_tf_example_intrinsics:
  assumes "create_tf_example_features lib files annotation = Inr feature_dict"
  shows "\<exists>img_size img_height img_width focal_length f w32 w2 h2.
           map_of annotation ''img_size'' = Some img_size
           \<and> subscript img_size 0 = Inr img_height \<and> subscript img_size 1 = Inr img_width
           \<and> map_of annotation ''focal_length'' = Some focal_length
           \<and> to_float lib focal_length = Some f
           \<and> truediv_const lib img_width 32 = Inr w32
           \<and> truediv_const lib img_width 2 = Inr w2
           \<and> truediv_const lib img_height 2 = Inr h2
           \<and> map_of feature_dict ''camera/intrinstic_mat''
               = Some (Feat (FloatList [round32 lib (round64 lib (f * w32)), round32 lib w2,
                                        round32 lib h2]))"
proof -
  from create_tf_example_features_stages[OF assms]
  obtain img_height img_width img_filename img_id pix3d_dir mask_filename model voxel_file
    fd4 fd5 where
    fields: "read_fields annotation
             = Inr (img_height, img_width, img_filename, img_id, pix3d_dir, mask_filename, model,
                    voxel_file)"
    and camera: "camera_annotations lib annotation img_height img_width fd4 = Inr fd5"
    and box: "bounding_box_annotations lib annotation img_height img_width fd5 = Inr feature_dict"
    by blast
  from read_fields_size[OF fields] obtain img_size where
    size: "map_of annotation ''img_size'' = Some img_size"
      "subscript img_size 0 = Inr img_height" "subscript img_size 1 = Inr img_width"
    by blast
  from camera_annotations_intrinsic[OF camera] obtain focal_length f w32 w2 h2 where
    cam: "map_of annotation ''focal_length'' = Some focal_length"
      "to_float lib focal_length = Some f"
      "truediv_const lib img_width 32 = Inr w32"
      "truediv_const lib img_width 2 = Inr w2"
      "truediv_const lib img_height 2 = Inr h2"
      "map_of fd5 ''camera/intrinstic_mat''
         = Some (Feat (FloatList [round32 lib (round64 lib (f * w32)), round32 lib w2,
                                  round32 lib h2]))"
    by blast
  from bounding_box_annotations_label[OF box]
  have "map_of feature_dict ''camera/intrinstic_mat'' = map_of fd5 ''camera/intrinstic_mat''"
    by blast
  with size cam show ?thesis by auto
qed

theorem create_tf_example_intrinsics_witness:
  "map_of example_annotation ''img_size'' = Some (JList [JInt 2016, JInt 1512])
   \<and> map_of example_annotation ''focal_length'' = Some (JFloat 36)
   \<and> (\<exists>feature_dict.
         create_tf_example_features example_lib example_files example_annotation
           = Inr feature_dict
         \<and> map_of feature_dict ''camera/intrinstic_mat''
             = Some (Feat (FloatList [1701, 756, 1008])))"
proof -
  have size: "map_of example_annotation ''img_size'' = Some (JList [JInt 2016, JInt 1512])"
    and focal: "map_of example_annotation ''focal_length'' = Some (JFloat 36)"
    by (simp_all add: example_annotation_def pix3d_annotation_def)
  from example_features obtain feature_dict where
    run: "create_tf_example_features example_lib example_files example_annotation
          = Inr feature_dict"
    by blast
  from create_tf_example_intrinsics[OF run]
  obtain img_size img_height img_width focal_length f w32 w2 h2 where
    got: "map_of example_annotation ''img_size'' = Some img_size"
      "subscript img_size 0 = Inr img_height" "subscript img_size 1 = Inr img_width"
      "map_of example_annotation ''focal_length'' = Some focal_length"
      "to_float example_lib focal_length = Some f"
      "truediv_const example_lib img_width 32 = Inr w32"
      "truediv_const example_lib img_width 2 = Inr w2"
      "truediv_const example_lib img_height 2 = Inr h2"
      "map_of feature_dict ''camera/intrinstic_mat''
         = Some (Feat (FloatList [round32 example_lib (round64 example_lib (f * w32)),
                                  round32 example_lib w2, round32 example_lib h2]))"
    by blast
  from got(1-3) size have "img_height = JInt 2016" "img_width = JInt 1512" by auto
  moreover from got(4) focal have "focal_length = JFloat 36" by simp
  ultimately have "f = 36" "w32 = 189 / 4" "w2 = 756" "h2 = 1008"
    using got(5-8) example_sizes by auto
  with got(9) have "map_of feature_dict ''camera/intrinstic_mat''
      = Some (Feat (FloatList [1701, 756, 1008]))"
    by (simp add: example_rounding binary64_values binary32_values)
  with size focal run show ?thesis by blast
qed

text \<open>
  C10, as the claim states it, fails. For the focal length \<^verbatim>\<open>0.1\<close>, \<open>W = 1512\<close> and
  \<open>H = 2016\<close> the first element stored is the float32 \<open>9909043 / 2^21\<close>, about
  4.7249999, which is neither the real number \<open>0.1 * (1512 / 32)\<close> nor the float
  \<^verbatim>\<open>0.1 * (1512/32)\<close> of Python; and no \<^verbatim>\<open>Example\<close> is assembled to hold the field.
\<close>

theorem create_tf_example_intrinsics_counterexample:
  "map_of short_focal_annotation ''focal_length'' = Some (JFloat (binary64 (1 / 10)))
   \<and> map_of short_focal_annotation ''img_size'' = Some (JList [JInt 2016, JInt 1512])
   \<and> built_field ''camera/intrinstic_mat''
        (create_tf_example_features example_lib example_files short_focal_annotation)
       = Some (Feat (FloatList [9909043 / 2097152, 756, 1008]))
   \<and> (9909043 / 2097152 :: real) \<noteq> binary64 (binary64 (1 / 10) * binary64 (1512 / 32))
   \<and> (9909043 / 2097152 :: real) \<noteq> 1 / 10 * (1512 / 32)
   \<and> create_tf_example example_lib example_files short_focal_annotation = Inl TypeError"
proof -
  have focal: "map_of short_focal_annotation ''focal_length'' = Some (JFloat (binary64 (1 / 10)))"
    and size: "map_of short_focal_annotation ''img_size'' = Some (JList [JInt 2016, JInt 1512])"
    by (simp_all add: short_focal_annotation_def pix3d_annotation_def)
  have field: "built_field ''camera/intrinstic_mat''
        (create_tf_example_features example_lib example_files short_focal_annotation)
       = Some (Feat (FloatList [9909043 / 2097152, 756, 1008]))"
    unfolding short_focal_features by (simp add: built_field_def)
  have "binary64 (binary64 (1 / 10) * binary64 (1512 / 32))
        = 5319877059831399 / 1125899906842624"
    by (simp add: binary64_values)
  then have python: "(9909043 / 2097152 :: real)
      \<noteq> binary64 (binary64 (1 / 10) * binary64 (1512 / 32))"
    by simp
  have exact: "(9909043 / 2097152 :: real) \<noteq> 1 / 10 * (1512 / 32)" by simp
  have no_example: "create_tf_example example_lib example_files short_focal_annotation
                    = Inl TypeError"
    unfolding create_tf_example_def short_focal_features by (simp add: and_then_def)
  from focal size field python exact no_example show ?thesis by blast
qed

text \<open>
  C1. The claim asks for the class label as an int64 feature under
  \<^verbatim>\<open>image/object/class/label\<close>. The code stores the annotation's \<^verbatim>\<open>category\<close> under that name as
  it is, without \<open>convert_to_feature\<close>: whenever the feature dictionary is built, the entry
  is the raw value, no feature of any kind, and the construction of the \<^verbatim>\<open>Example\<close> from
  the dictionary fails with TypeError.
\<close>

theorem create_tf_example_class_label:
  assumes "create_tf_example_features lib files annotation = Inr feature_dict"
  shows "(\<exists>category. map_of annotation ''category'' = Some category
            \<and> map_of feature_dict ''image/object/class/label'' = Some (Raw category))
         \<and> create_tf_example lib files annotation = Inl TypeError"
proof -
  from create_tf_example_features_stages[OF assms]
  obtain img_height img_width fd5 where
    "bounding_box_annotations lib annotation img_height img_width fd5 = Inr feature_dict"
    by blast
  from bounding_box_annotations_label[OF this] obtain category where
    label: "map_of annotation ''category'' = Some category"
      "map_of feature_dict ''image/object/class/label'' = Some (Raw category)"
    by blast
  from features_of_raw[OF label(2)] assms
  have "create_tf_example lib files annotation = Inl TypeError"
    by (simp add: create_tf_example_def and_then_def)
  with label show ?thesis by blast
qed

theorem create_tf_example_class_label_witness:
  "map_of example_annotation ''category'' = Some (JInt 3)
   \<and> (\<exists>feature_dict.
         create_tf_example_features example_lib example_files example_annotation
           = Inr feature_dict
         \<and> map_of feature_dict ''image/object/class/label'' = Some (Raw (JInt 3)))
   \<and> create_tf_example example_lib example_files example_annotation = Inl TypeError"
proof -
  have category: "map_of example_annotation ''category'' = Some (JInt 3)"
    by (simp add: example_annotation_def pix3d_annotation_def)
  from example_features obtain feature_dict where
    run: "create_tf_example_features example_lib example_files example_annotation
          = Inr feature_dict"
    by blast
  from create_tf_example_class_label[OF run] category
  have "map_of feature_dict ''image/object/class/label'' = Some (Raw (JInt 3))"
    and "create_tf_example example_lib example_files example_annotation = Inl TypeError"
    by auto
  with category run show ?thesis by blast
qed

end
